theory Spec2Isabelle
  imports Complex_Main
begin

section \<open>Python values, exceptions and the outside world\<close>

text \<open>
  The values that travel through the services: JSON documents of the media store, the
  dictionaries the gateways return, byte strings. A dictionary is the list of its items in
  insertion order, with string keys (the keys are unique; \<open>map_of\<close> looks one up).
  A finite float is carried as the rational it denotes: nothing modelled here computes with
  one, it is only passed on or tested for zero.
\<close>

datatype pyval =
    PNone
  | PBool bool
  | PInt int
  | PFloat rat
  | PStr string
  | PBytes string
  | PList "pyval list"
  | PDict "(string \<times> pyval) list"

type_synonym dict = "(string \<times> pyval) list"

text \<open>
  Exceptions that derive from Python's \<open>Exception\<close>. FastAPI's \<open>HTTPException\<close> (status
  code, detail) is one of them: \<open>fastapi.HTTPException\<close> extends Starlette's
  \<open>HTTPException\<close>, which extends \<open>Exception\<close>, so a handler \<open>except Exception\<close>
  catches it like any other. \<open>PyError cls msg\<close> stands for every other exception class.
\<close>

datatype exn =
    HTTPException nat string
  | PyError string string

text \<open>Truthiness, as \<open>if x\<close> and \<open>not x\<close> test it.\<close>

fun truthy :: "pyval \<Rightarrow> bool" where
  "truthy PNone = False"
| "truthy (PBool b) = b"
| "truthy (PInt n) = (n \<noteq> 0)"
| "truthy (PFloat r) = (r \<noteq> 0)"
| "truthy (PStr s) = (s \<noteq> [])"
| "truthy (PBytes s) = (s \<noteq> [])"
| "truthy (PList xs) = (xs \<noteq> [])"
| "truthy (PDict kvs) = (kvs \<noteq> [])"

text \<open>\<open>d.get(k, default)\<close> on a dictionary.\<close>

definition dict_get :: "dict \<Rightarrow> string \<Rightarrow> pyval \<Rightarrow> pyval" where
  "dict_get d k dflt = (case map_of d k of Some v \<Rightarrow> v | None \<Rightarrow> dflt)"

text \<open>\<open>x.get(k, default)\<close> on any value: only a dictionary has the method.\<close>

fun py_get :: "pyval \<Rightarrow> string \<Rightarrow> pyval \<Rightarrow> exn + pyval" where
  "py_get (PDict d) k dflt = Inr (dict_get d k dflt)"
| "py_get _ k dflt = Inl (PyError ''AttributeError'' ''get'')"

text \<open>\<open>d[k] = v\<close>: an existing key keeps its place, a new key goes last.\<close>

fun dict_set :: "dict \<Rightarrow> string \<Rightarrow> pyval \<Rightarrow> dict" where
  "dict_set [] k v = [(k, v)]"
| "dict_set ((k', v') # d) k v = (if k' = k then (k, v) # d else (k', v') # dict_set d k v)"

text \<open>\<open>len(x)\<close> and \<open>for y in x\<close>: a \<open>TypeError\<close> on a value that has no length or cannot
  be iterated. A string iterates over its characters, a dictionary over its keys.\<close>

fun py_len :: "pyval \<Rightarrow> exn + nat" where
  "py_len (PStr s) = Inr (length s)"
| "py_len (PBytes s) = Inr (length s)"
| "py_len (PList xs) = Inr (length xs)"
| "py_len (PDict d) = Inr (length d)"
| "py_len _ = Inl (PyError ''TypeError'' ''len'')"

fun py_iter :: "pyval \<Rightarrow> exn + pyval list" where
  "py_iter (PStr s) = Inr (map (\<lambda>c. PStr [c]) s)"
| "py_iter (PBytes s) = Inr (map (\<lambda>c. PInt (of_char c)) s)"
| "py_iter (PList xs) = Inr xs"
| "py_iter (PDict d) = Inr (map (\<lambda>kv. PStr (fst kv)) d)"
| "py_iter _ = Inl (PyError ''TypeError'' ''iter'')"

text \<open>A loop that builds a list and stops at the first exception.\<close>

fun map_exn :: "('a \<Rightarrow> exn + 'b) \<Rightarrow> 'a list \<Rightarrow> exn + 'b list" where
  "map_exn f [] = Inr []"
| "map_exn f (x # xs) =
     (case f x of
        Inl e \<Rightarrow> Inl e
      | Inr y \<Rightarrow> (case map_exn f xs of Inl e \<Rightarrow> Inl e | Inr ys \<Rightarrow> Inr (y # ys)))"

text \<open>
  Every call that leaves the process is an event. The world is the history of the events so
  far; what an outside call answers is a function of that history and of its arguments, given
  by the environment, so that any behaviour of the outside (also one that changes from call
  to call) is an environment.
\<close>

datatype event =
    HttpGet pyval dict dict
  | OpenRead string
  | TranscriptionsCreate string string
  | ChatCreate "dict list" rat int bool
  | NamedTemporaryFile string string
  | AnalyzeFrame string
  | Unlink string
  | AddMemory string string pyval

type_synonym world = "event list"

text \<open>A computation returns a value or raises, and leaves a world.\<close>

type_synonym 'a io = "(exn + 'a) \<times> world"

text \<open>\<open>try: body except Exception as e: handler\<close>, the body already run.\<close>

definition except_Exception :: "'a io \<Rightarrow> (exn \<Rightarrow> world \<Rightarrow> 'a io) \<Rightarrow> 'a io" where
  "except_Exception body handler =
     (case body of (Inl e, w) \<Rightarrow> handler e w | (Inr v, w) \<Rightarrow> (Inr v, w))"


section \<open>The AI gateway: \<open>groq_cloud_service.py\<close>\<close>

text \<open>
  What the provider's client returns. A transcription object has a \<open>text\<close> attribute and
  perhaps \<open>language\<close> and \<open>segments\<close> (\<open>None\<close>: the attribute is missing). A completion
  is the list of its choices, each the content of its message or the exception that reading
  it raises; a stream is a list of chunks, each such a list, and may end in an exception.
\<close>

record transcription =
  t_text :: "pyval option"
  t_language :: "pyval option"
  t_segments :: "pyval option"

type_synonym completion = "(exn + pyval) list"

record groq_service =
  available :: bool
  exn_str :: "exn \<Rightarrow> string"
  open_read :: "world \<Rightarrow> string \<Rightarrow> exn + string"
  transcriptions_create :: "world \<Rightarrow> string \<Rightarrow> string \<Rightarrow> exn + transcription"
  chat_create :: "world \<Rightarrow> dict list \<Rightarrow> rat \<Rightarrow> int \<Rightarrow> exn + completion"
  chat_create_stream :: "world \<Rightarrow> dict list \<Rightarrow> rat \<Rightarrow> int \<Rightarrow> exn + completion list \<times> exn option"

subsection \<open>\<open>transcribe_audio\<close>\<close>

definition seg_entry :: "pyval \<Rightarrow> exn + pyval" where
  "seg_entry seg =
     (case py_get seg ''text'' (PStr '''') of
        Inl e \<Rightarrow> Inl e
      | Inr t \<Rightarrow>
     (case py_get seg ''start'' (PInt 0) of
        Inl e \<Rightarrow> Inl e
      | Inr s \<Rightarrow>
     (case py_get seg ''end'' (PInt 0) of
        Inl e \<Rightarrow> Inl e
      | Inr en \<Rightarrow> Inr (PDict [(''text'', t), (''start'', s), (''end'', en)]))))"

text \<open>Lines 81 to 105: the response parsed into the result dictionary.\<close>

definition parse_transcription :: "transcription \<Rightarrow> exn + dict" where
  "parse_transcription tr =
     (case t_text tr of
        None \<Rightarrow> Inl (PyError ''AttributeError'' ''text'')
      | Some text \<Rightarrow>
          let language = (case t_language tr of None \<Rightarrow> PStr ''unknown'' | Some l \<Rightarrow> l);
              segments =
                (case t_segments tr of
                   None \<Rightarrow> Inr [PDict [(''text'', text), (''start'', PInt 0), (''end'', PNone)]]
                 | Some sg \<Rightarrow>
                     if truthy sg
                     then (case py_iter sg of Inl e \<Rightarrow> Inl e | Inr xs \<Rightarrow> map_exn seg_entry xs)
                     else Inr [PDict [(''text'', text), (''start'', PInt 0), (''end'', PNone)]])
          in (case segments of
                Inl e \<Rightarrow> Inl e
              | Inr segs \<Rightarrow>
                  (case py_len text of
                     Inl e \<Rightarrow> Inl e
                   | Inr n \<Rightarrow>
                       Inr [(''text'', text), (''language'', language), (''segments'', PList segs)])))"

text \<open>The \<open>try\<close> block of \<open>transcribe_audio\<close>: read the file, call the provider, parse.\<close>

definition transcribe_try :: "groq_service \<Rightarrow> world \<Rightarrow> string \<Rightarrow> dict io" where
  "transcribe_try g w audio_path =
     (case open_read g w audio_path of
        Inl e \<Rightarrow> (Inl e, w @ [OpenRead audio_path])
      | Inr data \<Rightarrow>
          let w1 = w @ [OpenRead audio_path];
              w2 = w1 @ [TranscriptionsCreate audio_path data]
          in (case transcriptions_create g w1 audio_path data of
                Inl e \<Rightarrow> (Inl e, w2)
              | Inr tr \<Rightarrow> (parse_transcription tr, w2)))"

definition transcribe_error :: "string \<Rightarrow> dict" where
  "transcribe_error msg = [(''error'', PStr msg), (''text'', PStr ''''), (''segments'', PList [])]"

definition transcribe_audio :: "groq_service \<Rightarrow> world \<Rightarrow> string \<Rightarrow> dict io" where
  "transcribe_audio g w audio_path =
     (if \<not> available g then (Inr (transcribe_error ''Groq service not available''), w)
      else except_Exception (transcribe_try g w audio_path)
             (\<lambda>e w'. (Inr (transcribe_error (exn_str g e)), w')))"

subsection \<open>\<open>chat_completion\<close>\<close>

text \<open>\<open>xs[0]\<close> on a list.\<close>

definition first_choice :: "completion \<Rightarrow> exn + pyval" where
  "first_choice choices =
     (case choices of [] \<Rightarrow> Inl (PyError ''IndexError'' ''list index out of range'') | c # _ \<Rightarrow> c)"

text \<open>Lines 152 to 156: the deltas of a stream collected into one string. A delta that is
  truthy and not a string cannot be added to a string.\<close>

fun collect_stream :: "string \<Rightarrow> completion list \<Rightarrow> exn option \<Rightarrow> exn + string" where
  "collect_stream content [] None = Inr content"
| "collect_stream content [] (Some e) = Inl e"
| "collect_stream content (chunk # chunks) fin =
     (case first_choice chunk of
        Inl e \<Rightarrow> Inl e
      | Inr delta \<Rightarrow>
          if truthy delta
          then (case delta of
                  PStr d \<Rightarrow> collect_stream (content @ d) chunks fin
                | _ \<Rightarrow> Inl (PyError ''TypeError'' ''can only concatenate str''))
          else collect_stream content chunks fin)"

definition model_name :: string where
  "model_name = ''openai/gpt-oss-120b''"

definition chat_try :: "groq_service \<Rightarrow> world \<Rightarrow> dict list \<Rightarrow> rat \<Rightarrow> int \<Rightarrow> bool \<Rightarrow> dict io" where
  "chat_try g w messages temperature max_tokens stream =
     (let w1 = w @ [ChatCreate messages temperature max_tokens stream] in
      if stream
      then (case chat_create_stream g w messages temperature max_tokens of
              Inl e \<Rightarrow> (Inl e, w1)
            | Inr (chunks, fin) \<Rightarrow>
                (case collect_stream '''' chunks fin of
                   Inl e \<Rightarrow> (Inl e, w1)
                 | Inr content \<Rightarrow> (Inr [(''content'', PStr content), (''model'', PStr model_name)], w1)))
      else (case chat_create g w messages temperature max_tokens of
              Inl e \<Rightarrow> (Inl e, w1)
            | Inr choices \<Rightarrow>
                (case first_choice choices of
                   Inl e \<Rightarrow> (Inl e, w1)
                 | Inr content \<Rightarrow> (Inr [(''content'', content), (''model'', PStr model_name)], w1))))"

definition chat_error :: "string \<Rightarrow> dict" where
  "chat_error msg = [(''error'', PStr msg), (''content'', PStr '''')]"

definition chat_completion :: "groq_service \<Rightarrow> world \<Rightarrow> dict list \<Rightarrow> rat \<Rightarrow> int \<Rightarrow> bool \<Rightarrow> dict io" where
  "chat_completion g w messages temperature max_tokens stream =
     (if \<not> available g then (Inr (chat_error ''Groq service not available''), w)
      else except_Exception (chat_try g w messages temperature max_tokens stream)
             (\<lambda>e w'. (Inr (chat_error (exn_str g e)), w')))"

subsection \<open>\<open>generate_forensic_analysis\<close>\<close>

text \<open>
  The string operations of lines 260 to 265. \<open>starts_with s sub\<close> is
  \<open>s.startswith(sub)\<close>, \<open>contains sub s\<close> is \<open>sub in s\<close>, \<open>py_split sep s\<close> is
  \<open>s.split(sep)\<close> for a separator that is not empty (the two separators of the source are
  constants), \<open>strip\<close> is \<open>s.strip()\<close>. A character is a code point below 256;
  \<open>is_space\<close> holds of those that \<open>str.isspace\<close> holds of: the ASCII blanks, the four
  separators 0x1C to 0x1F, the next-line character 0x85 and the no-break space 0xA0.
\<close>

definition starts_with :: "string \<Rightarrow> string \<Rightarrow> bool" where
  "starts_with s sub = (take (length sub) s = sub)"

fun contains :: "string \<Rightarrow> string \<Rightarrow> bool" where
  "contains sub [] = (sub = [])"
| "contains sub (c # cs) = (starts_with (c # cs) sub \<or> contains sub cs)"

fun py_split :: "string \<Rightarrow> string \<Rightarrow> string list" where
  "py_split sep [] = [[]]"
| "py_split sep (c # cs) =
     (if sep \<noteq> [] \<and> starts_with (c # cs) sep
      then [] # py_split sep (drop (length sep) (c # cs))
      else (let r = py_split sep cs in (c # hd r) # tl r))"

definition is_space :: "char \<Rightarrow> bool" where
  "is_space c = (c \<in> set [CHR 0x20, CHR 0x09, CHR 0x0A, CHR 0x0B, CHR 0x0C, CHR 0x0D,
                             CHR 0x1C, CHR 0x1D, CHR 0x1E, CHR 0x1F, CHR 0x85, CHR 0xA0])"

definition strip :: "string \<Rightarrow> string" where
  "strip s = rev (dropWhile is_space (rev (dropWhile is_space s)))"

text \<open>\<open>xs[i]\<close> for an index that is not negative.\<close>

definition list_index :: "'a list \<Rightarrow> nat \<Rightarrow> exn + 'a" where
  "list_index xs i =
     (if i < length xs then Inr (xs ! i) else Inl (PyError ''IndexError'' ''list index out of range''))"

text \<open>\<open>x[k] = v\<close> with a string key: only a dictionary takes it.\<close>

fun set_item :: "pyval \<Rightarrow> string \<Rightarrow> pyval \<Rightarrow> exn + pyval" where
  "set_item (PDict d) k v = Inr (PDict (dict_set d k v))"
| "set_item _ k v = Inl (PyError ''TypeError'' ''item assignment'')"

definition fence :: string where
  "fence = ''```''"

definition fence_json :: string where
  "fence_json = ''```json''"

text \<open>Lines 260 to 263: the Markdown wrapping removed.\<close>

definition clean_markdown :: "string \<Rightarrow> exn + string" where
  "clean_markdown content =
     (if contains fence_json content
      then (case list_index (py_split fence_json content) 1 of
              Inl e \<Rightarrow> Inl e
            | Inr rest \<Rightarrow> list_index (py_split fence rest) 0)
      else if contains fence content
      then (case list_index (py_split fence content) 1 of
              Inl e \<Rightarrow> Inl e
            | Inr rest \<Rightarrow> list_index (py_split fence rest) 0)
      else Inr content)"

text \<open>
  The \<open>try\<close> block, lines 255 to 270, on the dictionary \<open>chat_completion\<close> returned.
  \<open>loads\<close> is \<open>json.loads\<close>. A content that is not a string (the provider may answer
  \<open>None\<close>) raises on the way: the \<open>in\<close> test, \<open>split\<close> or \<open>strip\<close> fails on it.
\<close>

definition forensic_try :: "(string \<Rightarrow> exn + pyval) \<Rightarrow> string \<Rightarrow> string \<Rightarrow> dict \<Rightarrow> exn + pyval" where
  "forensic_try loads media_id user_id result =
     (case dict_get result ''content'' (PStr '''') of
        PStr content \<Rightarrow>
          (case clean_markdown content of
             Inl e \<Rightarrow> Inl e
           | Inr cleaned \<Rightarrow>
               (case loads (strip cleaned) of
                  Inl e \<Rightarrow> Inl e
                | Inr forensic_log \<Rightarrow>
                    (case set_item forensic_log ''media_id'' (PStr media_id) of
                       Inl e \<Rightarrow> Inl e
                     | Inr log1 \<Rightarrow> set_item log1 ''user_id'' (PStr user_id))))
      | _ \<Rightarrow> Inl (PyError ''TypeError'' ''content is not a string''))"

text \<open>Lines 252 to 274: what the function returns for a result of \<open>chat_completion\<close>
  (\<open>PNone\<close> is Python's \<open>None\<close>).\<close>

definition forensic_postprocess :: "(string \<Rightarrow> exn + pyval) \<Rightarrow> string \<Rightarrow> string \<Rightarrow> dict \<Rightarrow> pyval" where
  "forensic_postprocess loads media_id user_id result =
     (if map_of result ''error'' \<noteq> None then PNone
      else (case forensic_try loads media_id user_id result of
              Inl e \<Rightarrow> PNone
            | Inr forensic_log \<Rightarrow> forensic_log))"

text \<open>
  The whole function. The system prompt (lines 196 to 232) is a constant text and the user
  prompt is built by \<open>user_prompt\<close> from the three arguments; both are parameters here, no
  property below depends on their wording.
\<close>

definition forensic_messages ::
  "string \<Rightarrow> (string \<Rightarrow> string \<Rightarrow> string \<Rightarrow> string) \<Rightarrow> string \<Rightarrow> string \<Rightarrow> string \<Rightarrow> dict list" where
  "forensic_messages system_prompt user_prompt evidence_text media_id user_id =
     [[(''role'', PStr ''system''), (''content'', PStr system_prompt)],
      [(''role'', PStr ''user''), (''content'', PStr (user_prompt media_id user_id evidence_text))]]"

definition generate_forensic_analysis ::
  "groq_service \<Rightarrow> (string \<Rightarrow> exn + pyval) \<Rightarrow> string \<Rightarrow> (string \<Rightarrow> string \<Rightarrow> string \<Rightarrow> string) \<Rightarrow>
     world \<Rightarrow> string \<Rightarrow> string \<Rightarrow> string \<Rightarrow> pyval io" where
  "generate_forensic_analysis g loads system_prompt user_prompt w evidence_text media_id user_id =
     (case chat_completion g w
             (forensic_messages system_prompt user_prompt evidence_text media_id user_id)
             (1 / 10) 2048 False of
        (Inl e, w') \<Rightarrow> (Inl e, w')
      | (Inr result, w') \<Rightarrow> (Inr (forensic_postprocess loads media_id user_id result), w'))"


section \<open>The media sync service: \<open>supabase_sync.py\<close>\<close>

text \<open>
  An HTTP response of the shared client: its status code, its body, and what
  \<open>response.json()\<close> gives (the decoded body, or the exception decoding raises).
\<close>

record response =
  status_code :: int
  content :: string
  json_body :: "exn + pyval"

text \<open>
  The service and what it reaches: its two settings, the HTTP client, the AI gateway, the
  vision service and the memory store (modules of the repository that the service imports
  inside its functions; an import or a constructor that fails raises there), the temporary
  file and the clock. \<open>splitext_ext\<close> is \<open>os.path.splitext(name)[1]\<close> and \<open>py_format\<close>
  is how an f-string or \<open>str()\<close> renders a value that is not a string.
\<close>

record sync_env =
  supabase_url :: string
  supabase_key :: string
  client_get :: "world \<Rightarrow> pyval \<Rightarrow> dict \<Rightarrow> dict \<Rightarrow> exn + response"
  groq :: groq_service
  now_iso :: "world \<Rightarrow> string"
  splitext_ext :: "string \<Rightarrow> string"
  named_temporary_file :: "world \<Rightarrow> string \<Rightarrow> string \<Rightarrow> exn + string"
  get_vision_api_service :: "world \<Rightarrow> exn option"
  analyze_frame :: "world \<Rightarrow> string \<Rightarrow> exn + pyval"
  convert_to_tags :: "world \<Rightarrow> pyval \<Rightarrow> exn + pyval"
  get_supermemory_service :: "world \<Rightarrow> exn option"
  add_memory :: "world \<Rightarrow> string \<Rightarrow> string \<Rightarrow> pyval \<Rightarrow> exn option"
  py_format :: "pyval \<Rightarrow> string"

subsection \<open>\<open>get_user_media\<close> and \<open>download_media\<close>\<close>

definition media_url :: "sync_env \<Rightarrow> pyval" where
  "media_url env = PStr (supabase_url env @ ''/rest/v1/media'')"

definition media_headers :: "sync_env \<Rightarrow> dict" where
  "media_headers env =
     [(''apikey'', PStr (supabase_key env)),
      (''Authorization'', PStr (''Bearer '' @ supabase_key env)),
      (''Content-Type'', PStr ''application/json'')]"

definition media_params :: "string \<Rightarrow> dict" where
  "media_params user_id = [(''user_id'', PStr (''eq.'' @ user_id)), (''select'', PStr ''*'')]"

text \<open>Lines 53 to 69, the \<open>try\<close> block. The log line of the 200 branch takes
  \<open>len(media_list)\<close>, which raises on a body that has no length.\<close>

definition get_user_media_try :: "sync_env \<Rightarrow> world \<Rightarrow> string \<Rightarrow> pyval io" where
  "get_user_media_try env w user_id =
     (let w1 = w @ [HttpGet (media_url env) (media_headers env) (media_params user_id)] in
      case client_get env w (media_url env) (media_headers env) (media_params user_id) of
        Inl e \<Rightarrow> (Inl e, w1)
      | Inr resp \<Rightarrow>
          if status_code resp = 200
          then (case json_body resp of
                  Inl e \<Rightarrow> (Inl e, w1)
                | Inr media_list \<Rightarrow>
                    (case py_len media_list of
                       Inl e \<Rightarrow> (Inl e, w1)
                     | Inr n \<Rightarrow> (Inr media_list, w1)))
          else (Inr (PList []), w1))"

definition get_user_media :: "sync_env \<Rightarrow> world \<Rightarrow> string \<Rightarrow> pyval io" where
  "get_user_media env w user_id =
     (if supabase_url env = [] then (Inr (PList []), w)
      else except_Exception (get_user_media_try env w user_id) (\<lambda>e w'. (Inr (PList []), w')))"

definition download_try :: "sync_env \<Rightarrow> world \<Rightarrow> pyval \<Rightarrow> string option io" where
  "download_try env w file_url =
     (let w1 = w @ [HttpGet file_url [] []] in
      case client_get env w file_url [] [] of
        Inl e \<Rightarrow> (Inl e, w1)
      | Inr resp \<Rightarrow>
          if status_code resp = 200 then (Inr (Some (content resp)), w1) else (Inr None, w1))"

text \<open>The result is \<open>Optional[bytes]\<close>: the bytes of the body, or \<open>None\<close>.\<close>

definition download_media :: "sync_env \<Rightarrow> world \<Rightarrow> pyval \<Rightarrow> string option io" where
  "download_media env w file_url =
     (if \<not> truthy file_url then (Inr None, w)
      else except_Exception (download_try env w file_url) (\<lambda>e w'. (Inr None, w')))"

subsection \<open>\<open>analyze_media\<close>\<close>

text \<open>Lines 118 to 124. An exception here leaves \<open>analyze_media\<close> (through its
  \<open>finally\<close>).\<close>

definition transcribe_step :: "sync_env \<Rightarrow> world \<Rightarrow> dict \<Rightarrow> pyval \<Rightarrow> string \<Rightarrow> dict io" where
  "transcribe_step env w result media_type temp_path =
     (if media_type = PStr ''audio'' \<or> media_type = PStr ''video''
      then (case transcribe_audio (groq env) w temp_path of
              (Inl e, w') \<Rightarrow> (Inl e, w')
            | (Inr transcript_result, w') \<Rightarrow>
                if truthy (PDict transcript_result)
                   \<and> \<not> truthy (dict_get transcript_result ''error'' PNone)
                then (let result1 = dict_set result ''transcript''
                                      (dict_get transcript_result ''text'' (PStr ''''));
                          result2 = dict_set result1 ''segments''
                                      (dict_get transcript_result ''segments'' (PList []))
                      in case py_len (dict_get result2 ''transcript'' PNone) of
                           Inl e \<Rightarrow> (Inl e, w')
                         | Inr n \<Rightarrow> (Inr result2, w'))
                else (Inr result, w'))
      else (Inr result, w))"

text \<open>
  Lines 129 to 141, the inner \<open>try\<close> block. It updates the result dictionary in place, so
  it returns the dictionary as it stands also when it raises: the exception, if any, the
  dictionary, the world.
\<close>

definition vision_try :: "sync_env \<Rightarrow> world \<Rightarrow> dict \<Rightarrow> string \<Rightarrow> exn option \<times> dict \<times> world" where
  "vision_try env w result temp_path =
     (case get_vision_api_service env w of
        Some e \<Rightarrow> (Some e, result, w)
      | None \<Rightarrow>
          let w1 = w @ [AnalyzeFrame temp_path] in
          (case analyze_frame env w temp_path of
             Inl e \<Rightarrow> (Some e, result, w1)
           | Inr vision_result \<Rightarrow>
               if \<not> truthy vision_result then (None, result, w1)
               else (case vision_result of
                       PDict vr \<Rightarrow>
                         if truthy (dict_get vr ''error'' PNone) then (None, result, w1)
                         else (case convert_to_tags env w1 vision_result of
                                 Inl e \<Rightarrow> (Some e, result, w1)
                               | Inr tags_list \<Rightarrow>
                                   let result1 = dict_set result ''tags'' tags_list;
                                       description =
                                         (if truthy (dict_get vr ''visual_summary'' PNone)
                                          then dict_get vr ''visual_summary'' PNone
                                          else dict_get vr ''summary'' (PStr ''''));
                                       result2 = dict_set result1 ''description'' description
                                   in (case py_len tags_list of
                                         Inl e \<Rightarrow> (Some e, result2, w1)
                                       | Inr n \<Rightarrow> (None, result2, w1)))
                     | _ \<Rightarrow> (Some (PyError ''AttributeError'' ''get''), result, w1))))"

text \<open>Lines 126 to 143: the exception of the inner block is logged and dropped.\<close>

definition vision_step :: "sync_env \<Rightarrow> world \<Rightarrow> dict \<Rightarrow> pyval \<Rightarrow> string \<Rightarrow> dict \<times> world" where
  "vision_step env w result media_type temp_path =
     (if media_type = PStr ''image'' \<or> media_type = PStr ''video''
      then snd (vision_try env w result temp_path)
      else (result, w))"

text \<open>Line 112: the suffix of the temporary file. \<open>os.path.splitext\<close> raises on a name
  that is not a string (a JSON document has no bytes and no path objects).\<close>

definition temp_suffix :: "sync_env \<Rightarrow> pyval \<Rightarrow> exn + string" where
  "temp_suffix env filename =
     (case filename of
        PStr name \<Rightarrow> Inr (if splitext_ext env name = [] then ''.tmp'' else splitext_ext env name)
      | _ \<Rightarrow> Inl (PyError ''TypeError'' ''expected str, bytes or os.PathLike object''))"

text \<open>
  The whole function. The temporary file is written before the outer \<open>try\<close>; the
  \<open>finally\<close> unlinks it (a failing unlink is ignored) whether the block returned or raised.
\<close>

definition analyze_media :: "sync_env \<Rightarrow> world \<Rightarrow> string \<Rightarrow> pyval \<Rightarrow> pyval \<Rightarrow> dict io" where
  "analyze_media env w file_bytes media_type filename =
     (let result = [(''transcript'', PNone), (''tags'', PList []), (''description'', PNone),
                    (''analyzed_at'', PStr (now_iso env w))] in
      if \<not> available (groq env) then (Inr result, w)
      else (case temp_suffix env filename of
              Inl e \<Rightarrow> (Inl e, w)
            | Inr suffix \<Rightarrow>
                (case named_temporary_file env w suffix file_bytes of
                   Inl e \<Rightarrow> (Inl e, w @ [NamedTemporaryFile suffix file_bytes])
                 | Inr temp_path \<Rightarrow>
                     let w1 = w @ [NamedTemporaryFile suffix file_bytes] in
                     (case transcribe_step env w1 result media_type temp_path of
                        (Inl e, w2) \<Rightarrow> (Inl e, w2 @ [Unlink temp_path])
                      | (Inr result1, w2) \<Rightarrow>
                          (case vision_step env w2 result1 media_type temp_path of
                             (result2, w3) \<Rightarrow> (Inr result2, w3 @ [Unlink temp_path]))))))"

subsection \<open>\<open>store_to_supermemory\<close>\<close>

text \<open>A value inside an f-string: a string as it is, anything else as Python renders it.\<close>

definition fmt :: "sync_env \<Rightarrow> pyval \<Rightarrow> string" where
  "fmt env v = (case v of PStr s \<Rightarrow> s | _ \<Rightarrow> py_format env v)"

text \<open>\<open>sep.join(xs)\<close>: every item has to be a string.\<close>

fun py_join :: "string \<Rightarrow> pyval list \<Rightarrow> exn + string" where
  "py_join sep [] = Inr []"
| "py_join sep [PStr s] = Inr s"
| "py_join sep (PStr s # x # xs) =
     (case py_join sep (x # xs) of Inl e \<Rightarrow> Inl e | Inr r \<Rightarrow> Inr (s @ sep @ r))"
| "py_join sep (_ # xs) = Inl (PyError ''TypeError'' ''sequence item: expected str instance'')"

text \<open>Line 176: the name of one tag.\<close>

definition tag_name :: "sync_env \<Rightarrow> pyval \<Rightarrow> pyval" where
  "tag_name env t = (case t of PDict d \<Rightarrow> dict_get d ''name'' t | _ \<Rightarrow> PStr (fmt env t))"

text \<open>Lines 167 to 177: the parts of the text that is stored.\<close>

definition content_parts ::
  "sync_env \<Rightarrow> dict \<Rightarrow> pyval \<Rightarrow> pyval \<Rightarrow> exn + string list" where
  "content_parts env analysis media_type filename =
     (let parts0 = [if truthy filename then ''[FILE] '' @ fmt env filename
                    else ''[MEDIA] '' @ fmt env media_type];
          parts1 = (if truthy (dict_get analysis ''transcript'' PNone)
                    then parts0 @ [''[TRANSCRIPT] '' @ fmt env (dict_get analysis ''transcript'' PNone)]
                    else parts0);
          parts2 = (if truthy (dict_get analysis ''description'' PNone)
                    then parts1 @ [''[VISUAL] '' @ fmt env (dict_get analysis ''description'' PNone)]
                    else parts1)
      in if truthy (dict_get analysis ''tags'' PNone)
         then (case py_iter (dict_get analysis ''tags'' PNone) of
                 Inl e \<Rightarrow> Inl e
               | Inr tags \<Rightarrow>
                   (case py_join '', '' (map (tag_name env) tags) of
                      Inl e \<Rightarrow> Inl e
                    | Inr joined \<Rightarrow> Inr (parts2 @ [''[TAGS] '' @ joined])))
         else Inr parts2)"

definition newline :: string where
  "newline = [CHR 0x0A]"

definition memory_content ::
  "sync_env \<Rightarrow> pyval \<Rightarrow> string \<Rightarrow> pyval \<Rightarrow> pyval \<Rightarrow> string list \<Rightarrow> exn + string" where
  "memory_content env media_id user_id media_type filename parts =
     (case py_join (newline @ newline) (map PStr parts) of
        Inl e \<Rightarrow> Inl e
      | Inr body \<Rightarrow>
          Inr (''Media ID: '' @ fmt env media_id @ newline @ ''User: '' @ user_id @ newline
               @ ''Type: '' @ fmt env media_type @ newline @ ''File: '' @ fmt env filename
               @ newline @ newline @ body))"

text \<open>
  The whole function: an exception before the \<open>try\<close> (the import of the memory store, the
  tag names) leaves it; an exception of \<open>add_memory\<close> is caught and gives \<open>False\<close>.
\<close>

definition store_to_supermemory ::
  "sync_env \<Rightarrow> world \<Rightarrow> pyval \<Rightarrow> string \<Rightarrow> dict \<Rightarrow> pyval \<Rightarrow> pyval \<Rightarrow> bool io" where
  "store_to_supermemory env w media_id user_id analysis media_type filename =
     (case get_supermemory_service env w of
        Some e \<Rightarrow> (Inl e, w)
      | None \<Rightarrow>
          (case content_parts env analysis media_type filename of
             Inl e \<Rightarrow> (Inl e, w)
           | Inr parts \<Rightarrow>
               (case memory_content env media_id user_id media_type filename parts of
                  Inl e \<Rightarrow> (Inl e, w)
                | Inr text \<Rightarrow>
                    (case add_memory env w text user_id media_id of
                       Some e \<Rightarrow> (Inr False, w @ [AddMemory text user_id media_id])
                     | None \<Rightarrow> (Inr True, w @ [AddMemory text user_id media_id])))))"

subsection \<open>\<open>sync_user_media\<close>\<close>

text \<open>Lines 218 to 234, the \<open>try\<close> block of the loop body, from the counts so far to the
  new counts.\<close>

definition process_try ::
  "sync_env \<Rightarrow> string \<Rightarrow> pyval \<Rightarrow> pyval \<Rightarrow> pyval \<Rightarrow> pyval \<Rightarrow> nat \<Rightarrow> nat \<Rightarrow> world \<Rightarrow> (nat \<times> nat) io" where
  "process_try env user_id media_id file_url media_type filename processed errors w =
     (case download_media env w file_url of
        (Inl e, w1) \<Rightarrow> (Inl e, w1)
      | (Inr file_bytes, w1) \<Rightarrow>
          (case file_bytes of
             None \<Rightarrow> (Inr (processed, errors + 1), w1)
           | Some data \<Rightarrow>
               if data = [] then (Inr (processed, errors + 1), w1)
               else (case analyze_media env w1 data media_type filename of
                       (Inl e, w2) \<Rightarrow> (Inl e, w2)
                     | (Inr analysis, w2) \<Rightarrow>
                         (case store_to_supermemory env w2 media_id user_id analysis media_type filename of
                            (Inl e, w3) \<Rightarrow> (Inl e, w3)
                          | (Inr success, w3) \<Rightarrow>
                              if success then (Inr (processed + 1, errors), w3)
                              else (Inr (processed, errors + 1), w3)))))"

text \<open>
  Lines 210 to 238, one turn of the loop. The four \<open>media.get\<close> calls stand before the
  \<open>try\<close>: on an item that is not a dictionary they raise out of the loop. Inside the
  \<open>try\<close>, any exception counts one error.
\<close>

definition loop_body ::
  "sync_env \<Rightarrow> string \<Rightarrow> pyval \<Rightarrow> nat \<Rightarrow> nat \<Rightarrow> world \<Rightarrow> (nat \<times> nat) io" where
  "loop_body env user_id media processed errors w =
     (case py_get media ''id'' (PStr '''') of
        Inl e \<Rightarrow> (Inl e, w)
      | Inr media_id \<Rightarrow>
     (case py_get media ''file_url'' (PStr '''') of
        Inl e \<Rightarrow> (Inl e, w)
      | Inr file_url \<Rightarrow>
     (case py_get media ''type'' (PStr ''image'') of
        Inl e \<Rightarrow> (Inl e, w)
      | Inr media_type \<Rightarrow>
     (case py_get media ''file_name'' (PStr ''file'') of
        Inl e \<Rightarrow> (Inl e, w)
      | Inr filename \<Rightarrow>
          if \<not> truthy file_url then (Inr (processed, errors), w)
          else except_Exception
                 (process_try env user_id media_id file_url media_type filename processed errors w)
                 (\<lambda>e w'. (Inr (processed, errors + 1), w'))))))"

fun sync_loop ::
  "sync_env \<Rightarrow> string \<Rightarrow> pyval list \<Rightarrow> nat \<Rightarrow> nat \<Rightarrow> world \<Rightarrow> (nat \<times> nat) io" where
  "sync_loop env user_id [] processed errors w = (Inr (processed, errors), w)"
| "sync_loop env user_id (media # rest) processed errors w =
     (case loop_body env user_id media processed errors w of
        (Inl e, w') \<Rightarrow> (Inl e, w')
      | (Inr (processed', errors'), w') \<Rightarrow> sync_loop env user_id rest processed' errors' w')"

definition no_media_summary :: dict where
  "no_media_summary = [(''status'', PStr ''no_media''), (''processed'', PInt 0), (''total'', PInt 0)]"

definition completed_summary :: "nat \<Rightarrow> nat \<Rightarrow> nat \<Rightarrow> dict" where
  "completed_summary processed n_total errors =
     [(''status'', PStr ''completed''), (''processed'', PInt (int processed)),
      (''total'', PInt (int n_total)), (''errors'', PInt (int errors))]"

text \<open>The whole function, on what \<open>get_user_media\<close> returned (which has a length: the
  gateway took it).\<close>

definition sync_user_media :: "sync_env \<Rightarrow> world \<Rightarrow> string \<Rightarrow> dict io" where
  "sync_user_media env w user_id =
     (case get_user_media env w user_id of
        (Inl e, w1) \<Rightarrow> (Inl e, w1)
      | (Inr media_list, w1) \<Rightarrow>
          if \<not> truthy media_list then (Inr no_media_summary, w1)
          else (case py_iter media_list of
                  Inl e \<Rightarrow> (Inl e, w1)
                | Inr items \<Rightarrow>
                    (case sync_loop env user_id items 0 0 w1 of
                       (Inl e, w2) \<Rightarrow> (Inl e, w2)
                     | (Inr (processed, errors), w2) \<Rightarrow>
                         (case py_len media_list of
                            Inl e \<Rightarrow> (Inl e, w2)
                          | Inr n_total \<Rightarrow> (Inr (completed_summary processed n_total errors), w2)))))"


section \<open>The speech server: \<open>whisper_server.py\<close>\<close>

text \<open>
  The handler of \<open>/transcribe\<close> works on files of the working directory: the file system
  is a map from paths to contents. Writing the upload either fails at \<open>open\<close> (nothing is
  created), or fails while copying (the file is there, with what was copied so far), or
  succeeds. \<open>os.remove\<close> on a path that \<open>os.path.exists\<close> has just found removes it.
  The speech model returns the segments as a generator (the texts it yields, and perhaps an
  exception at the end) and an info object.
\<close>

type_synonym fs = "string \<Rightarrow> string option"

datatype write_outcome = OpenFails exn | CopyFails string exn | CopyDone

record whisper_info =
  language :: pyval
  language_probability :: pyval

record whisper_env =
  whisper_exn_str :: "exn \<Rightarrow> string"
  write_upload :: "fs \<Rightarrow> string \<Rightarrow> string \<Rightarrow> write_outcome"
  model_transcribe :: "fs \<Rightarrow> string \<Rightarrow> exn + (string list \<times> exn option) \<times> whisper_info"

text \<open>Lines 46 and 47.\<close>

definition save_upload :: "whisper_env \<Rightarrow> fs \<Rightarrow> string \<Rightarrow> string \<Rightarrow> (exn + unit) \<times> fs" where
  "save_upload env files temp_filename data =
     (case write_upload env files temp_filename data of
        OpenFails e \<Rightarrow> (Inl e, files)
      | CopyFails partial e \<Rightarrow> (Inl e, files(temp_filename \<mapsto> partial))
      | CopyDone \<Rightarrow> (Inr (), files(temp_filename \<mapsto> data)))"

fun join_strs :: "string \<Rightarrow> string list \<Rightarrow> string" where
  "join_strs sep [] = []"
| "join_strs sep [s] = s"
| "join_strs sep (s # t # ts) = s @ sep @ join_strs sep (t # ts)"

text \<open>Lines 46 to 60, the \<open>try\<close> block.\<close>

definition whisper_try :: "whisper_env \<Rightarrow> fs \<Rightarrow> string \<Rightarrow> string \<Rightarrow> (exn + dict) \<times> fs" where
  "whisper_try env files temp_filename data =
     (case save_upload env files temp_filename data of
        (Inl e, files1) \<Rightarrow> (Inl e, files1)
      | (Inr u, files1) \<Rightarrow>
          (case model_transcribe env files1 temp_filename of
             Inl e \<Rightarrow> (Inl e, files1)
           | Inr ((texts, fin), info) \<Rightarrow>
               (case fin of
                  Some e \<Rightarrow> (Inl e, files1)
                | None \<Rightarrow>
                    (Inr [(''text'', PStr (strip (join_strs '' '' texts))),
                          (''language'', language info),
                          (''probability'', language_probability info)], files1))))"

text \<open>\<open>os.path.exists\<close> and \<open>os.remove\<close> of the \<open>finally\<close> block, lines 68 and 69.\<close>

definition remove_if_exists :: "fs \<Rightarrow> string \<Rightarrow> fs" where
  "remove_if_exists files path = (if files path \<noteq> None then files(path := None) else files)"

text \<open>The handler of \<open>/transcribe\<close> (\<open>transcribe_audio\<close> in the source, a name the AI
  gateway has too): the block, the handler that turns any exception into a 500, the
  \<open>finally\<close>.\<close>

definition transcribe_endpoint :: "whisper_env \<Rightarrow> fs \<Rightarrow> string \<Rightarrow> string \<Rightarrow> (exn + dict) \<times> fs" where
  "transcribe_endpoint env files filename data =
     (let temp_filename = ''temp_'' @ filename in
      case whisper_try env files temp_filename data of
        (Inl e, files1) \<Rightarrow>
          (Inl (HTTPException 500 (whisper_exn_str env e)), remove_if_exists files1 temp_filename)
      | (Inr body, files1) \<Rightarrow> (Inr body, remove_if_exists files1 temp_filename))"


section \<open>The face detection server: \<open>face_detection_server.py\<close>\<close>

text \<open>
  OpenCV is outside: \<open>imdecode\<close> gives an image, or \<open>None\<close> for a buffer it cannot read,
  or raises; the cascade gives the rectangles \<open>(x, y, w, h)\<close> of the faces for a scale
  factor, a number of neighbours, a minimal size and the flag of the upload path;
  \<open>count_eyes\<close> is the number of eyes the eye cascade finds in the region of a face;
  \<open>shape\<close> is (height, width) of an image.
\<close>

type_synonym rect = "int \<times> int \<times> int \<times> int"

record ('img, 'gray) cv_env =
  cv_exn_str :: "exn \<Rightarrow> string"
  imdecode :: "string \<Rightarrow> exn + 'img option"
  cvtColor :: "'img \<Rightarrow> exn + 'gray"
  detectMultiScale :: "'gray \<Rightarrow> rat \<Rightarrow> nat \<Rightarrow> nat \<times> nat \<Rightarrow> bool \<Rightarrow> exn + rect list"
  count_eyes :: "'gray \<Rightarrow> rect \<Rightarrow> exn + nat"
  shape :: "'img \<Rightarrow> nat \<times> nat"
  b64decode :: "string \<Rightarrow> exn + string"

text \<open>The status of the response FastAPI sends: that of a raised \<open>HTTPException\<close>, 500
  for any other exception, 200 for a returned body.\<close>

definition http_status :: "exn + 'a \<Rightarrow> nat" where
  "http_status r =
     (case r of
        Inl (HTTPException code detail) \<Rightarrow> code
      | Inl (PyError cls msg) \<Rightarrow> 500
      | Inr body \<Rightarrow> 200)"

text \<open>Lines 69 to 83: one entry of the upload path.\<close>

definition face_info :: "('img, 'gray) cv_env \<Rightarrow> 'gray \<Rightarrow> nat \<times> rect \<Rightarrow> exn + pyval" where
  "face_info cv gray ir =
     (case ir of (i, (x, y, w, h)) \<Rightarrow>
        (case count_eyes cv gray (x, y, w, h) of
           Inl e \<Rightarrow> Inl e
         | Inr eyes \<Rightarrow>
             Inr (PDict [(''id'', PInt (int i + 1)), (''x'', PInt x), (''y'', PInt y),
                         (''width'', PInt w), (''height'', PInt h),
                         (''confidence'', PFloat (85 / 100)),
                         (''eyes_detected'', PInt (int eyes))])))"

text \<open>Lines 46 to 90, the \<open>try\<close> block of \<open>/detect\<close>, on the bytes of the upload.\<close>

definition detect_faces_try :: "('img, 'gray) cv_env \<Rightarrow> string \<Rightarrow> exn + dict" where
  "detect_faces_try cv contents =
     (case imdecode cv contents of
        Inl e \<Rightarrow> Inl e
      | Inr None \<Rightarrow> Inl (HTTPException 400 ''Could not decode image'')
      | Inr (Some img) \<Rightarrow>
          (case cvtColor cv img of
             Inl e \<Rightarrow> Inl e
           | Inr gray \<Rightarrow>
               (case detectMultiScale cv gray (11 / 10) 5 (30, 30) True of
                  Inl e \<Rightarrow> Inl e
                | Inr faces \<Rightarrow>
                    (case map_exn (face_info cv gray) (enumerate 0 faces) of
                       Inl e \<Rightarrow> Inl e
                     | Inr face_data \<Rightarrow>
                         Inr [(''face_count'', PInt (int (length faces))),
                              (''faces'', PList face_data),
                              (''image_width'', PInt (int (snd (shape cv img)))),
                              (''image_height'', PInt (int (fst (shape cv img))))]))))"

text \<open>The handler of \<open>/detect\<close>: \<open>except Exception as e\<close> around the whole block raises
  a 500 with the text of \<open>e\<close>.\<close>

definition detect_faces :: "('img, 'gray) cv_env \<Rightarrow> string \<Rightarrow> exn + dict" where
  "detect_faces cv contents =
     (case detect_faces_try cv contents of
        Inl e \<Rightarrow> Inl (HTTPException 500 (cv_exn_str cv e))
      | Inr body \<Rightarrow> Inr body)"

definition face_entry :: "nat \<times> rect \<Rightarrow> pyval" where
  "face_entry ir =
     (case ir of (i, (x, y, w, h)) \<Rightarrow>
        PDict [(''id'', PInt (int i + 1)), (''x'', PInt x), (''y'', PInt y),
               (''width'', PInt w), (''height'', PInt h)])"

text \<open>
  Lines 102 to 143, the \<open>try\<close> block of \<open>/detect_base64\<close>, on the JSON object of the
  request. An \<open>image\<close> that is truthy and not a string raises on the way (the \<open>in\<close> test,
  \<open>split\<close> or the base64 decoder fails on it).
\<close>

definition detect_faces_base64_try :: "('img, 'gray) cv_env \<Rightarrow> dict \<Rightarrow> exn + dict" where
  "detect_faces_base64_try cv data =
     (let image_data = dict_get data ''image'' PNone in
      if \<not> truthy image_data then Inl (HTTPException 400 ''No image data provided'')
      else (case image_data of
              PStr s \<Rightarrow>
                (case (if contains '','' s then list_index (py_split '','' s) 1 else Inr s) of
                   Inl e \<Rightarrow> Inl e
                 | Inr payload \<Rightarrow>
                     (case b64decode cv payload of
                        Inl e \<Rightarrow> Inl e
                      | Inr img_bytes \<Rightarrow>
                          (case imdecode cv img_bytes of
                             Inl e \<Rightarrow> Inl e
                           | Inr None \<Rightarrow> Inl (HTTPException 400 ''Could not decode image'')
                           | Inr (Some img) \<Rightarrow>
                               (case cvtColor cv img of
                                  Inl e \<Rightarrow> Inl e
                                | Inr gray \<Rightarrow>
                                    (case detectMultiScale cv gray (12 / 10) 4 (50, 50) False of
                                       Inl e \<Rightarrow> Inl e
                                     | Inr faces \<Rightarrow>
                                         Inr [(''face_count'', PInt (int (length faces))),
                                              (''faces'', PList (map face_entry (enumerate 0 faces)))])))))
            | _ \<Rightarrow> Inl (PyError ''TypeError'' ''image is not a string'')))"

definition detect_faces_base64 :: "('img, 'gray) cv_env \<Rightarrow> dict \<Rightarrow> exn + dict" where
  "detect_faces_base64 cv data =
     (case detect_faces_base64_try cv data of
        Inl e \<Rightarrow> Inl (HTTPException 500 (cv_exn_str cv e))
      | Inr body \<Rightarrow> Inr body)"


section \<open>Notions the properties use, and environments to run the services on\<close>

text \<open>A record has a source URL when the loop body does not skip it (line 215).\<close>

definition has_url :: "dict \<Rightarrow> bool" where
  "has_url r = truthy (dict_get r ''file_url'' (PStr ''''))"

text \<open>The count a summary carries under a key, if it carries one.\<close>

definition summary_int :: "dict \<Rightarrow> string \<Rightarrow> int option" where
  "summary_int s k = (case map_of s k of Some (PInt n) \<Rightarrow> Some n | _ \<Rightarrow> None)"

text \<open>The events of the transcription path: the AI gateway reads the audio file and calls
  the speech model.\<close>

fun is_transcription_event :: "event \<Rightarrow> bool" where
  "is_transcription_event (OpenRead path) = True"
| "is_transcription_event (TranscriptionsCreate path data) = True"
| "is_transcription_event _ = False"

text \<open>
  A small deployment: a store with two records, the second without a source URL, every
  outside call succeeding.
\<close>

definition demo_groq :: groq_service where
  "demo_groq =
     \<lparr>available = True,
      exn_str = (\<lambda>e. ''error''),
      open_read = (\<lambda>w path. Inr ''audio''),
      transcriptions_create =
        (\<lambda>w path data. Inr \<lparr>t_text = Some (PStr ''hello''), t_language = None, t_segments = None\<rparr>),
      chat_create = (\<lambda>w messages temperature max_tokens. Inr [Inr (PStr ''{}'')]),
      chat_create_stream = (\<lambda>w messages temperature max_tokens. Inr ([], None))\<rparr>"

definition demo_records :: "dict list" where
  "demo_records =
     [[(''id'', PStr ''m1''), (''file_url'', PStr ''https://db/a.png''), (''file_name'', PStr ''a.png'')],
      [(''id'', PStr ''m2''), (''type'', PStr ''audio'')]]"

definition demo_env :: sync_env where
  "demo_env =
     \<lparr>supabase_url = ''https://db'',
      supabase_key = ''key'',
      client_get =
        (\<lambda>w url headers params.
           if url = PStr ''https://db/rest/v1/media''
           then Inr \<lparr>status_code = 200, content = '''',
                     json_body = Inr (PList (map PDict demo_records))\<rparr>
           else Inr \<lparr>status_code = 200, content = ''png'',
                     json_body = Inl (PyError ''JSONDecodeError'' '''')\<rparr>),
      groq = demo_groq,
      now_iso = (\<lambda>w. ''2026-01-01T00:00:00''),
      splitext_ext = (\<lambda>name. ''.png''),
      named_temporary_file = (\<lambda>w suffix data. Inr ''/tmp/t.png''),
      get_vision_api_service = (\<lambda>w. None),
      analyze_frame = (\<lambda>w path. Inr (PDict [(''visual_summary'', PStr ''a room'')])),
      convert_to_tags = (\<lambda>w v. Inr (PList [PStr ''room''])),
      get_supermemory_service = (\<lambda>w. None),
      add_memory = (\<lambda>w text user_id media_id. None),
      py_format = (\<lambda>v. ''?'')\<rparr>"

definition demo_first :: dict where
  "demo_first =
     [(''id'', PStr ''m1''), (''file_url'', PStr ''https://db/a.png''), (''file_name'', PStr ''a.png'')]"

text \<open>The same deployment with no store URL, with no API key, with a store that answers 503
  to every request, and with a store that cannot be reached.\<close>

definition offline_env :: sync_env where
  "offline_env = demo_env\<lparr>supabase_url := ''''\<rparr>"

definition keyless_env :: sync_env where
  "keyless_env = demo_env\<lparr>supabase_key := ''''\<rparr>"

definition down_env :: sync_env where
  "down_env =
     demo_env\<lparr>client_get := (\<lambda>w url headers params.
        Inr \<lparr>status_code = 503, content = ''unavailable'',
             json_body = Inl (PyError ''JSONDecodeError'' '''')\<rparr>)\<rparr>"

definition unreachable_env :: sync_env where
  "unreachable_env =
     demo_env\<lparr>client_get := (\<lambda>w url headers params. Inl (PyError ''ConnectError'' ''''))\<rparr>"


text \<open>An AI gateway without its API key, and one whose provider fails: the speech call
  raises and a completion comes back with no choice.\<close>

definition unavailable_groq :: groq_service where
  "unavailable_groq = demo_groq\<lparr>available := False\<rparr>"

definition failing_groq :: groq_service where
  "failing_groq =
     demo_groq\<lparr>transcriptions_create := (\<lambda>w path data. Inl (PyError ''APIConnectionError'' '''')),
               chat_create := (\<lambda>w messages temperature max_tokens. Inr [])\<rparr>"


text \<open>
  A forensic log between fence lines, as the model tends to send it: the opening fence
  (with or without the language tag), a line break, the log, a line break, the closing fence.
\<close>

definition wrap_json :: "string \<Rightarrow> string" where
  "wrap_json s = fence_json @ newline @ s @ newline @ fence"

definition wrap_plain :: "string \<Rightarrow> string" where
  "wrap_plain s = fence @ newline @ s @ newline @ fence"


text \<open>
  A log whose \<open>inference_notes\<close> text quotes a fenced block, and \<open>json.loads\<close> on the
  three strings that matter for it: the empty object, that log, and anything else here is
  text that is not JSON.
\<close>

definition dq :: char where
  "dq = CHR 0x22"

definition tricky_log :: string where
  "tricky_log = ''{'' @ [dq] @ ''inference_notes'' @ [dq] @ '': '' @ [dq] @ fence @ ''{}'' @ fence @ [dq] @ ''}''"

definition json_loads_fragment :: "string \<Rightarrow> exn + pyval" where
  "json_loads_fragment s =
     (if s = ''{}'' then Inr (PDict [])
      else if s = tricky_log then Inr (PDict [(''inference_notes'', PStr (fence @ ''{}'' @ fence))])
      else Inl (PyError ''JSONDecodeError'' ''''))"


text \<open>AI gateways whose model answers the empty log between fence lines, the quoting log
  as it is, and the quoting log between fence lines.\<close>

definition fencing_groq :: groq_service where
  "fencing_groq =
     demo_groq\<lparr>chat_create := (\<lambda>w messages temperature max_tokens. Inr [Inr (PStr (wrap_json ''{}''))])\<rparr>"

definition quoting_groq :: groq_service where
  "quoting_groq =
     demo_groq\<lparr>chat_create := (\<lambda>w messages temperature max_tokens. Inr [Inr (PStr tricky_log)])\<rparr>"

definition fenced_quoting_groq :: groq_service where
  "fenced_quoting_groq =
     demo_groq\<lparr>chat_create := (\<lambda>w messages temperature max_tokens. Inr [Inr (PStr (wrap_json tricky_log))])\<rparr>"


text \<open>A speech model that fails on the file, and one that returns two segments; the upload
  is written in both.\<close>

definition crashing_whisper :: whisper_env where
  "crashing_whisper =
     \<lparr>whisper_exn_str = (\<lambda>e. ''error''),
      write_upload = (\<lambda>files path data. CopyDone),
      model_transcribe = (\<lambda>files path. Inl (PyError ''RuntimeError'' ''invalid data''))\<rparr>"

definition working_whisper :: whisper_env where
  "working_whisper =
     crashing_whisper\<lparr>model_transcribe := (\<lambda>files path.
        Inr (([''hello'', ''world''], None), \<lparr>language = PStr ''en'', language_probability = PFloat (9 / 10)\<rparr>))\<rparr>"


text \<open>An OpenCV that reads no buffer as an image.\<close>

definition blind_cv :: "(unit, unit) cv_env" where
  "blind_cv =
     \<lparr>cv_exn_str = (\<lambda>e. case e of HTTPException code detail \<Rightarrow> detail | PyError cls msg \<Rightarrow> msg),
      imdecode = (\<lambda>buf. Inr None),
      cvtColor = (\<lambda>img. Inr ()),
      detectMultiScale = (\<lambda>gray scale neighbours min_size flag. Inr []),
      count_eyes = (\<lambda>gray r. Inr 0),
      shape = (\<lambda>img. (0, 0)),
      b64decode = (\<lambda>s. Inr s)\<rparr>"


section \<open>Properties of the media sync service\<close>

lemmas run_defs =
  sync_user_media_def get_user_media_def get_user_media_try_def except_Exception_def
  media_url_def media_headers_def media_params_def loop_body_def process_try_def
  download_media_def download_try_def analyze_media_def temp_suffix_def transcribe_step_def
  vision_step_def vision_try_def store_to_supermemory_def content_parts_def memory_content_def
  fmt_def tag_name_def dict_get_def completed_summary_def no_media_summary_def newline_def
  transcribe_audio_def transcribe_try_def parse_transcription_def transcribe_error_def

lemmas demo_defs = demo_env_def demo_records_def demo_groq_def

text \<open>The \<open>try\<close> block of the loop body either raises or adds one to exactly one of the
  two counts.\<close>

lemma process_try_cases:
  "\<exists>w'. (\<exists>x. process_try env uid mid url mt fn p e w = (Inl x, w'))
        \<or> process_try env uid mid url mt fn p e w = (Inr (p + 1, e), w')
        \<or> process_try env uid mid url mt fn p e w = (Inr (p, e + 1), w')"
  by (auto simp: process_try_def split: prod.splits sum.splits option.splits)

text \<open>One turn of the loop on a record: it never raises, and the two counts together grow
  by one for a record with a source URL and not at all for one without.\<close>

lemma loop_body_dict:
  "\<exists>p' e' w'. loop_body env uid (PDict r) p e w = (Inr (p', e'), w')
      \<and> p' + e' = p + e + (if has_url r then 1 else 0)"
proof (cases "has_url r")
  case False
  then show ?thesis by (simp add: loop_body_def has_url_def)
next
  case True
  let ?t = "process_try env uid (dict_get r ''id'' (PStr '''')) (dict_get r ''file_url'' (PStr ''''))
              (dict_get r ''type'' (PStr ''image'')) (dict_get r ''file_name'' (PStr ''file'')) p e w"
  from process_try_cases obtain w' where
    "(\<exists>x. ?t = (Inl x, w')) \<or> ?t = (Inr (p + 1, e), w') \<or> ?t = (Inr (p, e + 1), w')"
    by blast
  with True show ?thesis
    by (auto simp: loop_body_def has_url_def except_Exception_def)
qed

lemma sync_loop_dicts:
  "\<exists>p' e' w'. sync_loop env uid (map PDict rs) p e w = (Inr (p', e'), w')
      \<and> p' + e' = p + e + length (filter has_url rs)"
proof (induction rs arbitrary: p e w)
  case Nil
  then show ?case by simp
next
  case (Cons r rs)
  obtain p1 e1 w1 where b: "loop_body env uid (PDict r) p e w = (Inr (p1, e1), w1)"
    and s: "p1 + e1 = p + e + (if has_url r then 1 else 0)"
    using loop_body_dict by blast
  from Cons.IH [of p1 e1 w1] obtain p' e' w' where
    l: "sync_loop env uid (map PDict rs) p1 e1 w1 = (Inr (p', e'), w')"
    and t: "p' + e' = p1 + e1 + length (filter has_url rs)" by blast
  from b l s t show ?case by auto
qed

text \<open>A run over a list of records that is not empty returns the completed summary, its
  two counts adding up to the number of records with a source URL.\<close>

lemma sync_completed:
  assumes "get_user_media env w uid = (Inr (PList (map PDict rs)), w1)" and "rs \<noteq> []"
  shows "\<exists>p e w'. sync_user_media env w uid = (Inr (completed_summary p (length rs) e), w')
           \<and> p + e = length (filter has_url rs)"
proof -
  obtain p e w' where l: "sync_loop env uid (map PDict rs) 0 0 w1 = (Inr (p, e), w')"
    and c: "p + e = 0 + 0 + length (filter has_url rs)"
    using sync_loop_dicts by blast
  from assms l have "sync_user_media env w uid = (Inr (completed_summary p (length rs) e), w')"
    by (simp add: sync_user_media_def)
  with c show ?thesis by auto
qed

lemma demo_fetch:
  "get_user_media demo_env [] ''u1'' =
     (Inr (PList (map PDict demo_records)),
      [HttpGet (media_url demo_env) (media_headers demo_env) (media_params ''u1'')])"
  by (simp add: get_user_media_def get_user_media_try_def except_Exception_def demo_env_def media_url_def)

lemma demo_run:
  "fst (sync_user_media demo_env [] ''u1'') = Inr (completed_summary 1 2 0)"
  by (simp add: run_defs demo_defs)

text \<open>A turn of the loop on any item, and the loop on any items: when they return, the two
  counts together have grown by at most one per item. The length and the items of a value
  that has both agree.\<close>

lemma loop_body_any:
  assumes "loop_body env uid m p e w = (Inr (p', e'), w')"
  shows "p' + e' \<le> p + e + 1"
proof (cases m)
  case (PDict r)
  with loop_body_dict [of env uid r p e w] assms show ?thesis by auto
qed (use assms in \<open>simp_all add: loop_body_def\<close>)

lemma sync_loop_any:
  "sync_loop env uid items p e w = (Inr (p', e'), w') \<Longrightarrow> p' + e' \<le> p + e + length items"
proof (induction items arbitrary: p e w)
  case Nil
  then show ?case by simp
next
  case (Cons m items)
  show ?case
  proof (cases "loop_body env uid m p e w")
    case (Pair r w1)
    show ?thesis
    proof (cases r)
      case (Inl x)
      with Pair Cons.prems show ?thesis by simp
    next
      case (Inr pe)
      obtain p1 e1 where pe: "pe = (p1, e1)" by (cases pe)
      with Pair Inr have b: "loop_body env uid m p e w = (Inr (p1, e1), w1)" by simp
      with Cons.prems have "sync_loop env uid items p1 e1 w1 = (Inr (p', e'), w')" by simp
      from Cons.IH [OF this] loop_body_any [OF b] show ?thesis by simp
    qed
  qed
qed

lemma iter_len: "py_iter ml = Inr items \<Longrightarrow> py_len ml = Inr n \<Longrightarrow> n = length items"
  by (cases ml) auto

text \<open>
  C1. A sync run over any list of media records, whatever download, analysis and store do,
  returns a summary, whose total is the number of records. Every summary a run returns has a
  processed count within its total and, when it carries an error count, processed and errors
  together within the total; when the total is positive the status is \<open>completed\<close> and the
  error count is there. (The \<open>no_media\<close> summary of an empty list carries no error count.)
\<close>

theorem sync_user_media_counts:
  "(\<forall>rs w1. get_user_media env w uid = (Inr (PList (map PDict rs)), w1)
       \<longrightarrow> (\<exists>s w'. sync_user_media env w uid = (Inr s, w')
              \<and> summary_int s ''total'' = Some (int (length rs))))
   \<and> (\<forall>s w'. sync_user_media env w uid = (Inr s, w')
       \<longrightarrow> (\<exists>p t. summary_int s ''processed'' = Some p \<and> summary_int s ''total'' = Some t
              \<and> 0 \<le> p \<and> p \<le> t
              \<and> (\<forall>e. summary_int s ''errors'' = Some e \<longrightarrow> 0 \<le> e \<and> p + e \<le> t)
              \<and> (0 < t \<longrightarrow> map_of s ''status'' = Some (PStr ''completed'')
                           \<and> (\<exists>e. summary_int s ''errors'' = Some e))))"
proof (intro conjI allI impI)
  fix rs w1
  assume f: "get_user_media env w uid = (Inr (PList (map PDict rs)), w1)"
  show "\<exists>s w'. sync_user_media env w uid = (Inr s, w')
              \<and> summary_int s ''total'' = Some (int (length rs))"
  proof (cases "rs = []")
    case True
    with f show ?thesis
      by (simp add: sync_user_media_def no_media_summary_def summary_int_def)
  next
    case False
    from sync_completed [OF f False] obtain p e w' where
      "sync_user_media env w uid = (Inr (completed_summary p (length rs) e), w')" by blast
    then show ?thesis by (simp add: completed_summary_def summary_int_def)
  qed
next
  fix s w'
  assume r: "sync_user_media env w uid = (Inr s, w')"
  obtain g w1 where f: "get_user_media env w uid = (g, w1)" by (cases "get_user_media env w uid")
  with r obtain ml where g: "g = Inr ml" by (cases g) (simp_all add: sync_user_media_def)
  show "\<exists>p t. summary_int s ''processed'' = Some p \<and> summary_int s ''total'' = Some t
              \<and> 0 \<le> p \<and> p \<le> t
              \<and> (\<forall>e. summary_int s ''errors'' = Some e \<longrightarrow> 0 \<le> e \<and> p + e \<le> t)
              \<and> (0 < t \<longrightarrow> map_of s ''status'' = Some (PStr ''completed'')
                           \<and> (\<exists>e. summary_int s ''errors'' = Some e))"
  proof (cases "truthy ml")
    case False
    with r f g have "s = no_media_summary" by (simp add: sync_user_media_def)
    then show ?thesis by (simp add: no_media_summary_def summary_int_def)
  next
    case True
    with r f g obtain items p e n where i: "py_iter ml = Inr items"
      and l: "sync_loop env uid items 0 0 w1 = (Inr (p, e), w')"
      and n: "py_len ml = Inr n" and s: "s = completed_summary p n e"
      by (auto simp: sync_user_media_def split: sum.splits prod.splits)
    from sync_loop_any [OF l] iter_len [OF i n] have "p + e \<le> n" by simp
    with s show ?thesis by (simp add: completed_summary_def summary_int_def)
  qed
qed

theorem sync_user_media_counts_witness:
  "get_user_media demo_env [] ''u1'' =
     (Inr (PList (map PDict demo_records)),
      [HttpGet (media_url demo_env) (media_headers demo_env) (media_params ''u1'')])
   \<and> fst (sync_user_media demo_env [] ''u1'') = Inr (completed_summary 1 2 0)
   \<and> summary_int (completed_summary 1 2 0) ''total'' = Some (int (length demo_records))
   \<and> (\<exists>p t. summary_int (completed_summary 1 2 0) ''processed'' = Some p
          \<and> summary_int (completed_summary 1 2 0) ''total'' = Some t
          \<and> 0 \<le> p \<and> p \<le> t
          \<and> (\<forall>e. summary_int (completed_summary 1 2 0) ''errors'' = Some e \<longrightarrow> 0 \<le> e \<and> p + e \<le> t)
          \<and> (0 < t \<longrightarrow> map_of (completed_summary 1 2 0) ''status'' = Some (PStr ''completed'')
                       \<and> (\<exists>e. summary_int (completed_summary 1 2 0) ''errors'' = Some e)))"
proof -
  note c = sync_user_media_counts [of demo_env "[]" "''u1''"]
  from c demo_fetch obtain s w' where r: "sync_user_media demo_env [] ''u1'' = (Inr s, w')"
    and t: "summary_int s ''total'' = Some (int (length demo_records))" by blast
  from r demo_run have s: "s = completed_summary 1 2 0" by simp
  from c r have "\<exists>p t. summary_int s ''processed'' = Some p \<and> summary_int s ''total'' = Some t
          \<and> 0 \<le> p \<and> p \<le> t
          \<and> (\<forall>e. summary_int s ''errors'' = Some e \<longrightarrow> 0 \<le> e \<and> p + e \<le> t)
          \<and> (0 < t \<longrightarrow> map_of s ''status'' = Some (PStr ''completed'')
                       \<and> (\<exists>e. summary_int s ''errors'' = Some e))" by blast
  with demo_fetch demo_run t show ?thesis unfolding s by blast
qed

text \<open>
  C3. A record without a source URL changes neither count: the loop body returns the counts
  and the world as they were. The total of the run still counts the record (it is the length
  of the fetched list), so in a run with such a record processed + errors, which is the
  number of records with a source URL, is below the total.
\<close>

theorem url_less_record_not_counted:
  assumes "get_user_media env w uid = (Inr (PList (map PDict rs)), w1)"
    and "r \<in> set rs" and "\<not> has_url r"
  shows "(\<forall>p e w2. loop_body env uid (PDict r) p e w2 = (Inr (p, e), w2))
       \<and> (\<exists>p e w'. sync_user_media env w uid = (Inr (completed_summary p (length rs) e), w')
             \<and> p + e = length (filter has_url rs) \<and> p + e < length rs)"
proof -
  from assms(2) have ne: "rs \<noteq> []" by auto
  from assms(2,3) have lt: "length (filter has_url rs) < length rs"
    by (rule length_filter_less)
  from sync_completed [OF assms(1) ne] obtain p e w' where
    a: "sync_user_media env w uid = (Inr (completed_summary p (length rs) e), w')"
    and b: "p + e = length (filter has_url rs)" by blast
  from b lt have c: "p + e < length rs" by simp
  from a b c have "\<exists>p e w'. sync_user_media env w uid = (Inr (completed_summary p (length rs) e), w')
             \<and> p + e = length (filter has_url rs) \<and> p + e < length rs" by blast
  moreover from assms(3) have "\<forall>p e w2. loop_body env uid (PDict r) p e w2 = (Inr (p, e), w2)"
    by (simp add: loop_body_def has_url_def)
  ultimately show ?thesis by blast
qed


lemma demo_second: "[(''id'', PStr ''m2''), (''type'', PStr ''audio'')] \<in> set demo_records"
  by (simp add: demo_records_def)

theorem url_less_record_not_counted_witness:
  "get_user_media demo_env [] ''u1'' =
     (Inr (PList (map PDict demo_records)),
      [HttpGet (media_url demo_env) (media_headers demo_env) (media_params ''u1'')])
   \<and> [(''id'', PStr ''m2''), (''type'', PStr ''audio'')] \<in> set demo_records
   \<and> \<not> has_url [(''id'', PStr ''m2''), (''type'', PStr ''audio'')]
   \<and> loop_body demo_env ''u1'' (PDict [(''id'', PStr ''m2''), (''type'', PStr ''audio'')]) 1 0 [] = (Inr (1, 0), [])
   \<and> (\<exists>p e w'. sync_user_media demo_env [] ''u1'' = (Inr (completed_summary p 2 e), w') \<and> p + e = 1 \<and> p + e < 2)"
proof -
  have h: "\<not> has_url [(''id'', PStr ''m2''), (''type'', PStr ''audio'')]"
    by (simp add: has_url_def dict_get_def)
  have f: "length (filter has_url demo_records) = 1"
    by (simp add: demo_records_def has_url_def dict_get_def)
  have l: "length demo_records = 2" by (simp add: demo_records_def)
  from url_less_record_not_counted [OF demo_fetch demo_second h]
  have "loop_body demo_env ''u1'' (PDict [(''id'', PStr ''m2''), (''type'', PStr ''audio'')]) 1 0 [] = (Inr (1, 0), [])"
    and "\<exists>p e w'. sync_user_media demo_env [] ''u1'' = (Inr (completed_summary p 2 e), w') \<and> p + e = 1 \<and> p + e < 2"
    unfolding f l by blast+
  with demo_fetch demo_second h show ?thesis by blast
qed


text \<open>
  C4. When the fetched media list is empty, the run returns exactly the summary
  \<open>{status: no_media, processed: 0, total: 0}\<close> and the world is the one the fetch left:
  beyond the list request (if one was sent) nothing was called, no download, no analysis, no
  store.
\<close>

theorem empty_list_no_media:
  assumes "get_user_media env w uid = (Inr (PList []), w1)"
  shows "sync_user_media env w uid = (Inr no_media_summary, w1)
       \<and> (w1 = w \<or> w1 = w @ [HttpGet (media_url env) (media_headers env) (media_params uid)])"
proof -
  have "snd (get_user_media env w uid) = w
      \<or> snd (get_user_media env w uid) = w @ [HttpGet (media_url env) (media_headers env) (media_params uid)]"
    by (auto simp: get_user_media_def get_user_media_try_def except_Exception_def Let_def
             split: sum.splits)
  with assms show ?thesis by (simp add: sync_user_media_def)
qed


lemma offline_fetch: "get_user_media offline_env [] ''u1'' = (Inr (PList []), [])"
  by (simp add: get_user_media_def offline_env_def)

theorem empty_list_no_media_witness:
  "get_user_media offline_env [] ''u1'' = (Inr (PList []), [])
   \<and> sync_user_media offline_env [] ''u1'' =
       (Inr [(''status'', PStr ''no_media''), (''processed'', PInt 0), (''total'', PInt 0)], [])"
  using empty_list_no_media [OF offline_fetch] offline_fetch by (simp add: no_media_summary_def)


text \<open>
  C5, as stated, fails: the summary of a run that finds no media has the three keys
  \<open>status\<close>, \<open>processed\<close> and \<open>total\<close>, and no error count.
\<close>

theorem no_media_summary_lacks_errors:
  "fst (sync_user_media offline_env [] ''u1'') = Inr no_media_summary
   \<and> map fst no_media_summary = [''status'', ''processed'', ''total'']
   \<and> map_of no_media_summary ''errors'' = None"
  by (simp add: sync_user_media_def get_user_media_def offline_env_def no_media_summary_def)


text \<open>
  C5, amended. Every summary a run returns is of one of two shapes: status \<open>completed\<close>
  with the four fields status, processed, total and errors, or the \<open>no_media\<close> summary
  with the three fields status, processed and total.
\<close>

theorem summary_fields:
  assumes "sync_user_media env w uid = (Inr s, w')"
  shows "(map_of s ''status'' = Some (PStr ''completed'')
            \<and> map fst s = [''status'', ''processed'', ''total'', ''errors''])
       \<or> (s = no_media_summary \<and> map_of s ''status'' = Some (PStr ''no_media'')
            \<and> map fst s = [''status'', ''processed'', ''total''])"
  using assms
  by (auto simp: sync_user_media_def no_media_summary_def completed_summary_def
           split: prod.splits sum.splits if_splits)

theorem summary_fields_witness:
  "fst (sync_user_media demo_env [] ''u1'') = Inr (completed_summary 1 2 0)
   \<and> map_of (completed_summary 1 2 0) ''status'' = Some (PStr ''completed'')
   \<and> map fst (completed_summary 1 2 0) = [''status'', ''processed'', ''total'', ''errors'']"
proof -
  obtain w' where r: "sync_user_media demo_env [] ''u1'' = (Inr (completed_summary 1 2 0), w')"
    using demo_run by (cases "sync_user_media demo_env [] ''u1''") auto
  from summary_fields [OF r] r show ?thesis
    by (simp add: no_media_summary_def completed_summary_def)
qed


text \<open>
  C9, as stated, fails on the credentials: the gateway tests the store URL only. With a URL
  and no API key the request is sent, and a store that answers 200 gets its list returned.
\<close>

theorem missing_key_still_lists:
  "supabase_key keyless_env = ''''
   \<and> fst (get_user_media keyless_env [] ''u1'') = Inr (PList (map PDict demo_records))
   \<and> PList (map PDict demo_records) \<noteq> PList []"
  by (simp add: keyless_env_def demo_env_def get_user_media_def get_user_media_try_def
        except_Exception_def media_url_def demo_records_def)


text \<open>
  C9, amended. The list operation never raises; it returns the empty list when the store URL
  is not set, when the store answers with a status other than 200 (so with every status
  outside 2xx), when the request raises and when decoding the body raises. The download
  operation never raises; it returns none for a missing URL, for a status other than 200 and
  when the request raises.
\<close>

theorem media_store_degrades:
  "(\<exists>v w'. get_user_media env w uid = (Inr v, w'))
   \<and> (supabase_url env = [] \<longrightarrow> get_user_media env w uid = (Inr (PList []), w))
   \<and> (\<forall>resp. client_get env w (media_url env) (media_headers env) (media_params uid) = Inr resp
              \<and> status_code resp \<noteq> 200
         \<longrightarrow> fst (get_user_media env w uid) = Inr (PList []))
   \<and> (\<forall>e. client_get env w (media_url env) (media_headers env) (media_params uid) = Inl e
         \<longrightarrow> fst (get_user_media env w uid) = Inr (PList []))
   \<and> (\<forall>resp e. client_get env w (media_url env) (media_headers env) (media_params uid) = Inr resp
              \<and> json_body resp = Inl e
         \<longrightarrow> fst (get_user_media env w uid) = Inr (PList []))
   \<and> (\<exists>v w'. download_media env w file_url = (Inr v, w'))
   \<and> (\<not> truthy file_url \<longrightarrow> download_media env w file_url = (Inr None, w))
   \<and> (\<forall>resp. client_get env w file_url [] [] = Inr resp \<and> status_code resp \<noteq> 200
         \<longrightarrow> fst (download_media env w file_url) = Inr None)
   \<and> (\<forall>e. client_get env w file_url [] [] = Inl e
         \<longrightarrow> fst (download_media env w file_url) = Inr None)"
proof -
  have g: "\<exists>v w'. get_user_media env w uid = (Inr v, w')"
    by (auto simp: get_user_media_def get_user_media_try_def except_Exception_def Let_def
             split: sum.splits)
  have d: "\<exists>v w'. download_media env w file_url = (Inr v, w')"
    by (auto simp: download_media_def download_try_def except_Exception_def Let_def
             split: sum.splits)
  show ?thesis
    using g d
    by (simp add: get_user_media_def get_user_media_try_def download_media_def download_try_def
          except_Exception_def Let_def split: sum.splits)
qed


theorem media_store_degrades_witness:
  "supabase_url offline_env = [] \<and> get_user_media offline_env [] ''u1'' = (Inr (PList []), [])
   \<and> status_code \<lparr>status_code = 503, content = ''unavailable'', json_body = Inl (PyError ''JSONDecodeError'' '''')\<rparr> \<noteq> 200
   \<and> fst (get_user_media down_env [] ''u1'') = Inr (PList [])
   \<and> fst (get_user_media unreachable_env [] ''u1'') = Inr (PList [])
   \<and> download_media demo_env [] (PStr '''') = (Inr None, [])
   \<and> fst (download_media down_env [] (PStr ''https://db/a.png'')) = Inr None
   \<and> fst (download_media unreachable_env [] (PStr ''https://db/a.png'')) = Inr None"
proof -
  have c1: "client_get down_env w url h p =
      Inr \<lparr>status_code = 503, content = ''unavailable'', json_body = Inl (PyError ''JSONDecodeError'' '''')\<rparr>"
    for w url h p by (simp add: down_env_def)
  have c2: "client_get unreachable_env w url h p = Inl (PyError ''ConnectError'' '''')" for w url h p
    by (simp add: unreachable_env_def)
  have u: "supabase_url offline_env = []" by (simp add: offline_env_def)
  from media_store_degrades [of offline_env "[]" "''u1''" "PStr ''''"] u
  have a: "get_user_media offline_env [] ''u1'' = (Inr (PList []), [])" by blast
  from media_store_degrades [of down_env "[]" "''u1''" "PStr ''https://db/a.png''"] c1
  have b: "fst (get_user_media down_env [] ''u1'') = Inr (PList [])"
    and b': "fst (download_media down_env [] (PStr ''https://db/a.png'')) = Inr None" by simp_all
  from media_store_degrades [of unreachable_env "[]" "''u1''" "PStr ''https://db/a.png''"] c2
  have c: "fst (get_user_media unreachable_env [] ''u1'') = Inr (PList [])"
    and c': "fst (download_media unreachable_env [] (PStr ''https://db/a.png'')) = Inr None" by simp_all
  from media_store_degrades [of demo_env "[]" "''u1''" "PStr ''''"]
  have d: "download_media demo_env [] (PStr '''') = (Inr None, [])" by simp
  from u a b b' c c' d show ?thesis by simp
qed


text \<open>Which calls add no event of the transcription path.\<close>

lemma download_no_transcription:
  "filter is_transcription_event (snd (download_media env w url)) = filter is_transcription_event w"
  by (simp add: download_media_def download_try_def except_Exception_def Let_def split: sum.splits)

lemma store_no_transcription:
  "filter is_transcription_event (snd (store_to_supermemory env w mid uid a mt fn))
     = filter is_transcription_event w"
  by (simp add: store_to_supermemory_def split: option.splits sum.splits)

lemma vision_no_transcription:
  "filter is_transcription_event (snd (vision_step env w res mt path)) = filter is_transcription_event w"
  by (simp add: vision_step_def vision_try_def Let_def split: option.splits sum.splits pyval.splits)

lemma analyze_image_no_transcription:
  "filter is_transcription_event (snd (analyze_media env w data (PStr ''image'') fn))
     = filter is_transcription_event w"
proof -
  have v: "filter is_transcription_event (snd (vision_step env w' res (PStr ''image'') path))
             = filter is_transcription_event w'" for w' res path
    by (rule vision_no_transcription)
  have "filter is_transcription_event (x2b @ [Unlink path]) = filter is_transcription_event w"
    if "vision_step env (w @ [NamedTemporaryFile sfx data]) res (PStr ''image'') path = (x1, x2b)"
    for sfx res path x1 x2b
    using v [of "w @ [NamedTemporaryFile sfx data]" res path] that by simp
  then show ?thesis
    by (simp add: analyze_media_def transcribe_step_def Let_def split: sum.splits prod.splits)
qed

lemma vision_try_world:
  "get_vision_api_service env w = None \<Longrightarrow>
   snd (snd (vision_try env w res path)) = w @ [AnalyzeFrame path]"
  by (simp add: vision_try_def Let_def split: sum.splits pyval.splits)

lemma analyze_image_world:
  assumes "available (groq env)" and "temp_suffix env fn = Inr suffix"
    and "named_temporary_file env w suffix data = Inr path"
    and "get_vision_api_service env (w @ [NamedTemporaryFile suffix data]) = None"
  shows "snd (analyze_media env w data (PStr ''image'') fn)
           = w @ [NamedTemporaryFile suffix data, AnalyzeFrame path, Unlink path]"
proof -
  let ?w1 = "w @ [NamedTemporaryFile suffix data]"
  have "snd (snd (vision_try env ?w1 res path)) = ?w1 @ [AnalyzeFrame path]" for res
    using assms(4) by (rule vision_try_world)
  then have "snd (vision_step env ?w1 res (PStr ''image'') path) = ?w1 @ [AnalyzeFrame path]" for res
    by (simp add: vision_step_def)
  then have "vision_step env ?w1 res (PStr ''image'') path = (x1, x2) \<Longrightarrow> x2 = ?w1 @ [AnalyzeFrame path]"
    for res x1 x2
    by (metis snd_conv)
  with assms(1,2,3) show ?thesis
    by (auto simp: analyze_media_def transcribe_step_def Let_def split: prod.splits)
qed

lemma store_world_grows:
  "set w \<subseteq> set (snd (store_to_supermemory env w mid uid a mt fn))"
  by (auto simp: store_to_supermemory_def split: option.splits sum.splits)

lemma process_image_no_transcription:
  "filter is_transcription_event (snd (process_try env uid mid url (PStr ''image'') fn p e w))
     = filter is_transcription_event w"
proof -
  obtain r1 w1 where d: "download_media env w url = (r1, w1)" by (cases "download_media env w url")
  then have f1: "filter is_transcription_event w1 = filter is_transcription_event w"
    using download_no_transcription [of env w url] by simp
  show ?thesis
  proof (cases r1)
    case (Inl x)
    with d f1 show ?thesis by (simp add: process_try_def)
  next
    case (Inr fb)
    show ?thesis
    proof (cases "fb = None \<or> fb = Some []")
      case True
      with d f1 Inr show ?thesis by (auto simp: process_try_def)
    next
      case False
      then obtain data where fb: "fb = Some data" and ne: "data \<noteq> []" by (cases fb) auto
      obtain r2 w2 where a: "analyze_media env w1 data (PStr ''image'') fn = (r2, w2)"
        by (cases "analyze_media env w1 data (PStr ''image'') fn")
      then have f2: "filter is_transcription_event w2 = filter is_transcription_event w1"
        using analyze_image_no_transcription [of env w1 data fn] by simp
      show ?thesis
      proof (cases r2)
        case (Inl x)
        with d Inr fb ne a f1 f2 show ?thesis by (simp add: process_try_def)
      next
        case (Inr an)
        obtain r3 w3 where s: "store_to_supermemory env w2 mid uid an (PStr ''image'') fn = (r3, w3)"
          by (cases "store_to_supermemory env w2 mid uid an (PStr ''image'') fn")
        then have f3: "filter is_transcription_event w3 = filter is_transcription_event w2"
          using store_no_transcription [of env w2 mid uid an "PStr ''image''" fn] by simp
        from d \<open>r1 = Inr fb\<close> fb ne a Inr s f1 f2 f3 show ?thesis
          by (simp add: process_try_def split: sum.splits)
      qed
    qed
  qed
qed

lemma dict_get_default_type:
  "map_of r ''type'' = None \<Longrightarrow> dict_get r ''type'' (PStr ''image'') = PStr ''image''"
  by (simp add: dict_get_def)

lemma dict_get_append_type:
  "map_of r ''type'' = None \<Longrightarrow>
   dict_get (r @ [(''type'', v)]) k d = (if k = ''type'' then v else dict_get r k d)"
  by (auto simp: dict_get_def map_add_def split: option.splits)


text \<open>
  C10. A record with a source URL and no \<open>type\<close> field is processed as the same record
  with the type \<open>image\<close>: the turn of the loop adds no event of the transcription path,
  whatever the outside answers, and when the download gave bytes, the AI gateway is available,
  the temporary file was written and the vision service is there, the vision analysis of that
  file is among its events.
\<close>

theorem untyped_record_is_image:
  assumes "map_of r ''type'' = None" and "has_url r"
  shows "loop_body env uid (PDict r) p e w
           = loop_body env uid (PDict (r @ [(''type'', PStr ''image'')])) p e w
       \<and> filter is_transcription_event (snd (loop_body env uid (PDict r) p e w))
           = filter is_transcription_event w
       \<and> (\<forall>data w1 suffix path.
            download_media env w (dict_get r ''file_url'' (PStr '''')) = (Inr (Some data), w1)
            \<and> data \<noteq> [] \<and> available (groq env)
            \<and> temp_suffix env (dict_get r ''file_name'' (PStr ''file'')) = Inr suffix
            \<and> named_temporary_file env w1 suffix data = Inr path
            \<and> get_vision_api_service env (w1 @ [NamedTemporaryFile suffix data]) = None
            \<longrightarrow> AnalyzeFrame path \<in> set (snd (loop_body env uid (PDict r) p e w)))"
proof -
  let ?mid = "dict_get r ''id'' (PStr '''')"
  let ?url = "dict_get r ''file_url'' (PStr '''')"
  let ?fn = "dict_get r ''file_name'' (PStr ''file'')"
  have body: "loop_body env uid (PDict r) p e w
      = except_Exception (process_try env uid ?mid ?url (PStr ''image'') ?fn p e w)
          (\<lambda>e' w'. (Inr (p, e + 1), w'))"
    using assms by (simp add: loop_body_def has_url_def dict_get_default_type)
  have one: "loop_body env uid (PDict r) p e w
           = loop_body env uid (PDict (r @ [(''type'', PStr ''image'')])) p e w"
    using assms(1) by (simp add: loop_body_def dict_get_append_type dict_get_default_type)
  have two: "filter is_transcription_event (snd (loop_body env uid (PDict r) p e w))
           = filter is_transcription_event w"
    using process_image_no_transcription [of env uid ?mid ?url ?fn p e w]
    by (cases "process_try env uid ?mid ?url (PStr ''image'') ?fn p e w")
       (auto simp: body except_Exception_def split: sum.splits)
  have three: "AnalyzeFrame path \<in> set (snd (loop_body env uid (PDict r) p e w))"
    if d: "download_media env w ?url = (Inr (Some data), w1)" and ne: "data \<noteq> []"
      and av: "available (groq env)" and sf: "temp_suffix env ?fn = Inr suffix"
      and tf: "named_temporary_file env w1 suffix data = Inr path"
      and vs: "get_vision_api_service env (w1 @ [NamedTemporaryFile suffix data]) = None"
    for data w1 suffix path
  proof -
    obtain r2 w2 where a: "analyze_media env w1 data (PStr ''image'') ?fn = (r2, w2)"
      by (cases "analyze_media env w1 data (PStr ''image'') ?fn")
    with analyze_image_world [OF av sf tf vs]
    have w2: "w2 = w1 @ [NamedTemporaryFile suffix data, AnalyzeFrame path, Unlink path]" by simp
    show ?thesis
    proof (cases r2)
      case (Inl x)
      with d ne a w2 show ?thesis
        by (simp add: body except_Exception_def process_try_def)
    next
      case (Inr an)
      obtain r3 w3 where s: "store_to_supermemory env w2 ?mid uid an (PStr ''image'') ?fn = (r3, w3)"
        by (cases "store_to_supermemory env w2 ?mid uid an (PStr ''image'') ?fn")
      with store_world_grows [of w2 env ?mid uid an "PStr ''image''" ?fn] w2
      have "AnalyzeFrame path \<in> set w3" by auto
      with d ne a Inr s show ?thesis
        by (cases r3) (auto simp: body except_Exception_def process_try_def)
    qed
  qed
  from one two three show ?thesis by blast
qed


theorem untyped_record_is_image_witness:
  "map_of demo_first ''type'' = None \<and> has_url demo_first
   \<and> loop_body demo_env ''u1'' (PDict demo_first) 0 0 []
       = loop_body demo_env ''u1'' (PDict (demo_first @ [(''type'', PStr ''image'')])) 0 0 []
   \<and> filter is_transcription_event (snd (loop_body demo_env ''u1'' (PDict demo_first) 0 0 [])) = []
   \<and> AnalyzeFrame ''/tmp/t.png'' \<in> set (snd (loop_body demo_env ''u1'' (PDict demo_first) 0 0 []))"
proof -
  have t: "map_of demo_first ''type'' = None" by (simp add: demo_first_def)
  have h: "has_url demo_first" by (simp add: demo_first_def has_url_def dict_get_def)
  have d: "download_media demo_env [] (dict_get demo_first ''file_url'' (PStr ''''))
             = (Inr (Some ''png''), [HttpGet (PStr ''https://db/a.png'') [] []])"
    by (simp add: download_media_def download_try_def except_Exception_def demo_env_def
          demo_first_def dict_get_def)
  have s: "temp_suffix demo_env (dict_get demo_first ''file_name'' (PStr ''file'')) = Inr ''.png''"
    by (simp add: temp_suffix_def demo_env_def demo_first_def dict_get_def)
  have rest: "''png'' \<noteq> [] \<and> available (groq demo_env)
      \<and> named_temporary_file demo_env [HttpGet (PStr ''https://db/a.png'') [] []] ''.png'' ''png'' = Inr ''/tmp/t.png''
      \<and> get_vision_api_service demo_env ([HttpGet (PStr ''https://db/a.png'') [] []] @ [NamedTemporaryFile ''.png'' ''png'']) = None"
    by (simp add: demo_env_def demo_groq_def)
  note u = untyped_record_is_image [OF t h, of demo_env "''u1''" 0 0 "[]"]
  from u have one: "loop_body demo_env ''u1'' (PDict demo_first) 0 0 []
       = loop_body demo_env ''u1'' (PDict (demo_first @ [(''type'', PStr ''image'')])) 0 0 []"
    by (rule conjunct1)
  from u have "filter is_transcription_event (snd (loop_body demo_env ''u1'' (PDict demo_first) 0 0 []))
       = filter is_transcription_event []" by blast
  then have two: "filter is_transcription_event (snd (loop_body demo_env ''u1'' (PDict demo_first) 0 0 [])) = []"
    by simp
  from u d s rest
  have three: "AnalyzeFrame ''/tmp/t.png'' \<in> set (snd (loop_body demo_env ''u1'' (PDict demo_first) 0 0 []))"
    by blast
  from t h one two three show ?thesis by blast
qed


section \<open>Properties of the AI gateway\<close>

text \<open>
  C6. \<open>transcribe_audio\<close> and \<open>chat_completion\<close> always return a dictionary, never an
  exception. When the service is unavailable, or anything in the \<open>try\<close> block raises (the
  file, the provider's call, reading the answer), the dictionary is the error one: an
  \<open>error\<close> key with the message and an empty \<open>text\<close> (with no segments) or an empty
  \<open>content\<close>.
\<close>

theorem gateway_never_raises:
  "(\<exists>d w'. transcribe_audio g w path = (Inr d, w')
       \<and> ((\<not> available g \<or> (\<exists>e. fst (transcribe_try g w path) = Inl e))
            \<longrightarrow> (\<exists>msg. d = [(''error'', PStr msg), (''text'', PStr ''''), (''segments'', PList [])])))
   \<and> (\<forall>e. available g \<and> open_read g w path = Inl e
         \<longrightarrow> fst (transcribe_audio g w path) = Inr (transcribe_error (exn_str g e)))
   \<and> (\<forall>data e. available g \<and> open_read g w path = Inr data
              \<and> transcriptions_create g (w @ [OpenRead path]) path data = Inl e
         \<longrightarrow> fst (transcribe_audio g w path) = Inr (transcribe_error (exn_str g e)))
   \<and> (\<forall>data tr e. available g \<and> open_read g w path = Inr data
              \<and> transcriptions_create g (w @ [OpenRead path]) path data = Inr tr
              \<and> parse_transcription tr = Inl e
         \<longrightarrow> fst (transcribe_audio g w path) = Inr (transcribe_error (exn_str g e)))
   \<and> (\<exists>d w'. chat_completion g w messages temperature max_tokens stream = (Inr d, w')
       \<and> ((\<not> available g \<or> (\<exists>e. fst (chat_try g w messages temperature max_tokens stream) = Inl e))
            \<longrightarrow> (\<exists>msg. d = [(''error'', PStr msg), (''content'', PStr '''')])))
   \<and> (\<forall>e. available g \<and> \<not> stream \<and> chat_create g w messages temperature max_tokens = Inl e
         \<longrightarrow> fst (chat_completion g w messages temperature max_tokens stream)
               = Inr (chat_error (exn_str g e)))
   \<and> (\<forall>choices e. available g \<and> \<not> stream
              \<and> chat_create g w messages temperature max_tokens = Inr choices
              \<and> first_choice choices = Inl e
         \<longrightarrow> fst (chat_completion g w messages temperature max_tokens stream)
               = Inr (chat_error (exn_str g e)))
   \<and> (\<forall>e. available g \<and> stream \<and> chat_create_stream g w messages temperature max_tokens = Inl e
         \<longrightarrow> fst (chat_completion g w messages temperature max_tokens stream)
               = Inr (chat_error (exn_str g e)))
   \<and> (\<forall>chunks fin e. available g \<and> stream
              \<and> chat_create_stream g w messages temperature max_tokens = Inr (chunks, fin)
              \<and> collect_stream '''' chunks fin = Inl e
         \<longrightarrow> fst (chat_completion g w messages temperature max_tokens stream)
               = Inr (chat_error (exn_str g e)))"
proof -
  have t1: "\<exists>d w'. transcribe_audio g w path = (Inr d, w')
       \<and> ((\<not> available g \<or> (\<exists>e. fst (transcribe_try g w path) = Inl e))
            \<longrightarrow> (\<exists>msg. d = [(''error'', PStr msg), (''text'', PStr ''''), (''segments'', PList [])]))"
    by (cases "transcribe_try g w path"; cases "fst (transcribe_try g w path)")
       (auto simp: transcribe_audio_def except_Exception_def transcribe_error_def)
  have t2: "\<forall>e. available g \<and> open_read g w path = Inl e
         \<longrightarrow> fst (transcribe_audio g w path) = Inr (transcribe_error (exn_str g e))"
    by (simp add: transcribe_audio_def except_Exception_def transcribe_try_def)
  have t3: "\<forall>data e. available g \<and> open_read g w path = Inr data
              \<and> transcriptions_create g (w @ [OpenRead path]) path data = Inl e
         \<longrightarrow> fst (transcribe_audio g w path) = Inr (transcribe_error (exn_str g e))"
    by (simp add: transcribe_audio_def except_Exception_def transcribe_try_def Let_def)
  have t4: "\<forall>data tr e. available g \<and> open_read g w path = Inr data
              \<and> transcriptions_create g (w @ [OpenRead path]) path data = Inr tr
              \<and> parse_transcription tr = Inl e
         \<longrightarrow> fst (transcribe_audio g w path) = Inr (transcribe_error (exn_str g e))"
    by (simp add: transcribe_audio_def except_Exception_def transcribe_try_def Let_def)
  have c1: "\<exists>d w'. chat_completion g w messages temperature max_tokens stream = (Inr d, w')
       \<and> ((\<not> available g \<or> (\<exists>e. fst (chat_try g w messages temperature max_tokens stream) = Inl e))
            \<longrightarrow> (\<exists>msg. d = [(''error'', PStr msg), (''content'', PStr '''')]))"
    by (cases "chat_try g w messages temperature max_tokens stream";
        cases "fst (chat_try g w messages temperature max_tokens stream)")
       (auto simp: chat_completion_def except_Exception_def chat_error_def)
  have c2: "\<forall>e. available g \<and> \<not> stream \<and> chat_create g w messages temperature max_tokens = Inl e
         \<longrightarrow> fst (chat_completion g w messages temperature max_tokens stream)
               = Inr (chat_error (exn_str g e))"
    by (simp add: chat_completion_def except_Exception_def chat_try_def Let_def)
  have c3: "\<forall>choices e. available g \<and> \<not> stream
              \<and> chat_create g w messages temperature max_tokens = Inr choices
              \<and> first_choice choices = Inl e
         \<longrightarrow> fst (chat_completion g w messages temperature max_tokens stream)
               = Inr (chat_error (exn_str g e))"
    by (simp add: chat_completion_def except_Exception_def chat_try_def Let_def)
  have c4: "\<forall>e. available g \<and> stream \<and> chat_create_stream g w messages temperature max_tokens = Inl e
         \<longrightarrow> fst (chat_completion g w messages temperature max_tokens stream)
               = Inr (chat_error (exn_str g e))"
    by (simp add: chat_completion_def except_Exception_def chat_try_def Let_def)
  have c5: "\<forall>chunks fin e. available g \<and> stream
              \<and> chat_create_stream g w messages temperature max_tokens = Inr (chunks, fin)
              \<and> collect_stream '''' chunks fin = Inl e
         \<longrightarrow> fst (chat_completion g w messages temperature max_tokens stream)
               = Inr (chat_error (exn_str g e))"
    by (simp add: chat_completion_def except_Exception_def chat_try_def Let_def)
  from t1 t2 t3 t4 c1 c2 c3 c4 c5 show ?thesis by blast
qed

theorem gateway_never_raises_witness:
  "\<not> available unavailable_groq
   \<and> fst (transcribe_audio unavailable_groq [] ''a.wav'')
       = Inr [(''error'', PStr ''Groq service not available''), (''text'', PStr ''''), (''segments'', PList [])]
   \<and> available failing_groq \<and> open_read failing_groq [] ''a.wav'' = Inr ''audio''
   \<and> transcriptions_create failing_groq ([] @ [OpenRead ''a.wav'']) ''a.wav'' ''audio''
        = Inl (PyError ''APIConnectionError'' '''')
   \<and> fst (transcribe_audio failing_groq [] ''a.wav'')
       = Inr [(''error'', PStr ''error''), (''text'', PStr ''''), (''segments'', PList [])]
   \<and> chat_create failing_groq [] [] (7 / 10) 2048 = Inr []
   \<and> first_choice [] = Inl (PyError ''IndexError'' ''list index out of range'')
   \<and> fst (chat_completion failing_groq [] [] (7 / 10) 2048 False)
       = Inr [(''error'', PStr ''error''), (''content'', PStr '''')]"
proof -
  have a: "available failing_groq" "open_read failing_groq [] ''a.wav'' = Inr ''audio''"
    "transcriptions_create failing_groq ([] @ [OpenRead ''a.wav'']) ''a.wav'' ''audio''
        = Inl (PyError ''APIConnectionError'' '''')"
    "chat_create failing_groq [] [] (7 / 10) 2048 = Inr []"
    "exn_str failing_groq = (\<lambda>e. ''error'')"
    by (simp_all add: failing_groq_def demo_groq_def)
  have f: "first_choice [] = Inl (PyError ''IndexError'' ''list index out of range'')"
    by (simp add: first_choice_def)
  have u: "\<not> available unavailable_groq" by (simp add: unavailable_groq_def demo_groq_def)
  have u1: "fst (transcribe_audio unavailable_groq [] ''a.wav'')
       = Inr [(''error'', PStr ''Groq service not available''), (''text'', PStr ''''), (''segments'', PList [])]"
    using u by (simp add: transcribe_audio_def transcribe_error_def)
  note g = gateway_never_raises [of failing_groq "[]" "''a.wav''" "[]" "7 / 10" 2048 False]
  from g a have t: "fst (transcribe_audio failing_groq [] ''a.wav'')
       = Inr (transcribe_error (exn_str failing_groq (PyError ''APIConnectionError'' '''')))"
    by blast
  from g a f have c: "fst (chat_completion failing_groq [] [] (7 / 10) 2048 False)
       = Inr (chat_error (exn_str failing_groq (PyError ''IndexError'' ''list index out of range'')))"
    by blast
  from t c a u u1 f show ?thesis by (simp add: transcribe_error_def chat_error_def)
qed

text \<open>How \<open>in\<close>, \<open>split\<close> and \<open>strip\<close> behave around a separator.\<close>

lemma starts_with_length: "starts_with s sub \<Longrightarrow> length sub \<le> length s"
proof -
  assume "starts_with s sub"
  then have "length (take (length sub) s) = length sub" by (simp add: starts_with_def)
  then show ?thesis by simp
qed

lemma contains_length: "contains sub s \<Longrightarrow> length sub \<le> length s"
  by (induction s) (auto dest: starts_with_length)

lemma not_contains_nonempty: "\<not> contains sub s \<Longrightarrow> sub \<noteq> []"
  by (cases s) (auto simp: starts_with_def)

lemma starts_with_append:
  assumes "\<not> starts_with s sep" and "c \<notin> set sep"
  shows "\<not> starts_with (s @ c # t) sep"
proof
  assume a: "starts_with (s @ c # t) sep"
  show False
  proof (cases "length sep \<le> length s")
    case True
    with a assms(1) show False by (simp add: starts_with_def)
  next
    case False
    then have l: "length s < length sep" by simp
    from a have "sep ! length s = (take (length sep) (s @ c # t)) ! length s"
      by (simp add: starts_with_def)
    also from l have "\<dots> = c" by (simp add: nth_append)
    finally have "sep ! length s = c" .
    with l assms(2) show False by (metis nth_mem)
  qed
qed

lemma not_contains_cons:
  "\<not> contains sep s \<Longrightarrow> c \<notin> set sep \<Longrightarrow> \<not> contains sep (c # s)"
  by (cases sep) (auto simp: starts_with_def dest: not_contains_nonempty)

lemma not_contains_snoc:
  "\<not> contains sep s \<Longrightarrow> c \<notin> set sep \<Longrightarrow> length r < length sep \<Longrightarrow> \<not> contains sep (s @ c # r)"
proof (induction s)
  case Nil
  then have "\<not> contains sep r" using contains_length by fastforce
  with Nil show ?case by (cases sep) (auto simp: starts_with_def)
next
  case (Cons x s)
  then have "\<not> starts_with (x # s) sep" and "\<not> contains sep s" by auto
  with Cons starts_with_append [of "x # s" sep c r] show ?case by auto
qed

lemma split_no_sep: "\<not> contains sep s \<Longrightarrow> py_split sep s = [s]"
  by (induction s) auto

lemma split_at_sep: "sep \<noteq> [] \<Longrightarrow> py_split sep (sep @ rest) = [] # py_split sep rest"
  by (cases sep) (auto simp: starts_with_def)

lemma split_first:
  "\<not> contains sep s \<Longrightarrow> c \<notin> set sep \<Longrightarrow>
   py_split sep (s @ c # sep @ rest) = (s @ [c]) # py_split sep rest"
proof (induction s)
  case Nil
  then have ne: "sep \<noteq> []" by (auto dest: not_contains_nonempty)
  with Nil have "\<not> starts_with (c # sep @ rest) sep" by (cases sep) (auto simp: starts_with_def)
  with ne show ?case by (simp add: split_at_sep)
next
  case (Cons x s)
  then have "\<not> starts_with (x # s) sep" and nc: "\<not> contains sep s" by auto
  with Cons.prems starts_with_append [of "x # s" sep c "sep @ rest"]
  have "\<not> starts_with (x # s @ c # sep @ rest) sep" by simp
  with Cons.IH [OF nc Cons.prems(2)] show ?case by simp
qed

lemma strip_cons: "is_space c \<Longrightarrow> strip (c # s) = strip s"
  by (simp add: strip_def)

lemma strip_snoc:
  assumes that: "is_space c"
  shows "strip (s @ [c]) = strip s"
proof (cases "\<forall>x\<in>set s. is_space x")
  case True
  then have b: "dropWhile is_space s = []" by (simp add: dropWhile_eq_Nil_conv)
  from True that have a: "dropWhile is_space (s @ [c]) = []" by (simp add: dropWhile_eq_Nil_conv)
  show ?thesis by (simp add: strip_def a b)
next
  case False
  then have "dropWhile is_space (s @ [c]) = dropWhile is_space s @ [c]"
    by (auto simp: dropWhile_append)
  with that show ?thesis by (simp add: strip_def)
qed

lemma starts_with_shorter: "starts_with s (a @ b) \<Longrightarrow> starts_with s a"
proof -
  assume "starts_with s (a @ b)"
  then have "take (length a) (take (length (a @ b)) s) = take (length a) (a @ b)"
    by (simp only: starts_with_def)
  then show ?thesis by (simp add: starts_with_def min_def)
qed

lemma contains_longer: "contains (a @ b) s \<Longrightarrow> contains a s"
  by (induction s) (auto dest: starts_with_shorter)

lemma fence_json_eq: "fence_json = fence @ ''json''"
  by (simp add: fence_def fence_json_def)

lemma contains_fence_json: "contains fence_json s \<Longrightarrow> contains fence s"
  unfolding fence_json_eq by (rule contains_longer)

lemma newline_not_in_fence: "CHR 0x0A \<notin> set fence" "CHR 0x0A \<notin> set fence_json"
  by (simp_all add: fence_def fence_json_def)

lemma clean_unwrapped: "\<not> contains fence s \<Longrightarrow> clean_markdown s = Inr s"
  by (auto simp: clean_markdown_def dest: contains_fence_json)

lemma inner_no_fence:
  assumes "\<not> contains fence s"
  shows "\<not> contains fence (newline @ s)" and "\<not> contains fence (newline @ s @ newline)"
    and "\<not> contains fence_json (newline @ s @ newline @ fence)"
proof -
  show a: "\<not> contains fence (newline @ s)"
    using not_contains_cons [OF assms newline_not_in_fence(1)] by (simp add: newline_def)
  from not_contains_snoc [OF a newline_not_in_fence(1), of "[]"]
  show "\<not> contains fence (newline @ s @ newline)" by (simp add: newline_def fence_def)
  from a have "\<not> contains fence_json (newline @ s)" by (auto dest: contains_fence_json)
  from not_contains_snoc [OF this newline_not_in_fence(2), of fence]
  show "\<not> contains fence_json (newline @ s @ newline @ fence)"
    by (simp add: newline_def fence_def fence_json_def)
qed

lemma split_closing_fence:
  assumes "\<not> contains fence s"
  shows "py_split fence (newline @ s @ newline @ fence) = [newline @ s @ newline, []]"
  using split_first [OF inner_no_fence(1) [OF assms] newline_not_in_fence(1), of "[]"]
  by (simp add: newline_def)

lemma clean_wrap_json:
  assumes "\<not> contains fence s"
  shows "clean_markdown (wrap_json s) = Inr (newline @ s @ newline)"
proof -
  let ?rest = "newline @ s @ newline @ fence"
  have c: "contains fence_json (wrap_json s)"
    by (simp add: wrap_json_def fence_json_def starts_with_def)
  have "py_split fence_json (wrap_json s) = [] # py_split fence_json ?rest"
    unfolding wrap_json_def by (rule split_at_sep) (simp add: fence_json_def)
  also have "py_split fence_json ?rest = [?rest]"
    using inner_no_fence(3) [OF assms] by (rule split_no_sep)
  finally have sp: "py_split fence_json (wrap_json s) = [[], ?rest]" .
  show ?thesis
    by (simp add: clean_markdown_def c sp list_index_def split_closing_fence [OF assms])
qed

lemma clean_wrap_plain:
  assumes "\<not> contains fence s"
  shows "clean_markdown (wrap_plain s) = Inr (newline @ s @ newline)"
proof -
  let ?rest = "newline @ s @ newline @ fence"
  have nj: "\<not> contains fence_json (wrap_plain s)"
    using inner_no_fence(3) [OF assms]
    by (simp add: wrap_plain_def fence_def fence_json_def newline_def starts_with_def)
  have c: "contains fence (wrap_plain s)"
    by (simp add: wrap_plain_def fence_def starts_with_def)
  have "py_split fence (wrap_plain s) = [] # py_split fence ?rest"
    unfolding wrap_plain_def by (rule split_at_sep) (simp add: fence_def)
  then have sp: "py_split fence (wrap_plain s) = [[], newline @ s @ newline, []]"
    by (simp add: split_closing_fence [OF assms])
  have inner: "py_split fence (newline @ s @ newline) = [newline @ s @ newline]"
    using inner_no_fence(2) [OF assms] by (rule split_no_sep)
  show ?thesis
    by (simp add: clean_markdown_def nj c sp list_index_def inner)
qed

lemma strip_padded: "strip (newline @ s @ newline) = strip s"
proof -
  have sp: "is_space (CHR 0x0A)" by (simp add: is_space_def)
  have "strip (newline @ s @ newline) = strip ((CHR 0x0A # s) @ [CHR 0x0A])" by (simp add: newline_def)
  also have "\<dots> = strip (CHR 0x0A # s)" using sp by (rule strip_snoc)
  also have "\<dots> = strip s" using sp by (rule strip_cons)
  finally show ?thesis .
qed

text \<open>What the function returns for a completion with one choice, a string.\<close>

lemma forensic_of_completion:
  assumes "available g"
    and "chat_create g w (forensic_messages sp up ev mid uid) (1 / 10) 2048 = Inr [Inr (PStr c)]"
  shows "fst (generate_forensic_analysis g loads sp up w ev mid uid)
           = Inr (forensic_postprocess loads mid uid [(''content'', PStr c), (''model'', PStr model_name)])"
  using assms
  by (simp add: generate_forensic_analysis_def chat_completion_def chat_try_def except_Exception_def
        first_choice_def Let_def)

text \<open>
  Where the cleaning does what its comment says. For every string that contains no run of
  three backticks, the model output made of that string between fence lines, with the
  \<open>json\<close> tag or without, is post-processed to the same result as the string itself,
  whatever \<open>json.loads\<close> and the rest of the completion are; so
  \<open>generate_forensic_analysis\<close> returns the same for a model that answers the fenced
  string and for one that answers the string.
\<close>

lemma fenced_log_parsed_alike:
  assumes "\<not> contains fence s"
  shows "forensic_postprocess loads media_id user_id ((''content'', PStr (wrap_json s)) # rest)
           = forensic_postprocess loads media_id user_id ((''content'', PStr s) # rest)
       \<and> forensic_postprocess loads media_id user_id ((''content'', PStr (wrap_plain s)) # rest)
           = forensic_postprocess loads media_id user_id ((''content'', PStr s) # rest)
       \<and> (\<forall>g g' fenced. available g \<and> available g' \<and> (fenced = wrap_json s \<or> fenced = wrap_plain s)
              \<and> chat_create g w (forensic_messages sp up ev media_id user_id) (1 / 10) 2048
                   = Inr [Inr (PStr fenced)]
              \<and> chat_create g' w (forensic_messages sp up ev media_id user_id) (1 / 10) 2048
                   = Inr [Inr (PStr s)]
            \<longrightarrow> fst (generate_forensic_analysis g loads sp up w ev media_id user_id)
                  = fst (generate_forensic_analysis g' loads sp up w ev media_id user_id))"
proof -
  have a: "forensic_postprocess loads media_id user_id ((''content'', PStr (wrap_json s)) # r)
           = forensic_postprocess loads media_id user_id ((''content'', PStr s) # r)" for r
    by (simp add: forensic_postprocess_def forensic_try_def dict_get_def clean_unwrapped [OF assms]
        clean_wrap_json [OF assms] strip_padded)
  have b: "forensic_postprocess loads media_id user_id ((''content'', PStr (wrap_plain s)) # r)
           = forensic_postprocess loads media_id user_id ((''content'', PStr s) # r)" for r
    by (simp add: forensic_postprocess_def forensic_try_def dict_get_def clean_unwrapped [OF assms]
        clean_wrap_plain [OF assms] strip_padded)
  have c: "fst (generate_forensic_analysis g loads sp up w ev media_id user_id)
                  = fst (generate_forensic_analysis g' loads sp up w ev media_id user_id)"
    if "available g" "available g'" "fenced = wrap_json s \<or> fenced = wrap_plain s"
      "chat_create g w (forensic_messages sp up ev media_id user_id) (1 / 10) 2048 = Inr [Inr (PStr fenced)]"
      "chat_create g' w (forensic_messages sp up ev media_id user_id) (1 / 10) 2048 = Inr [Inr (PStr s)]"
    for g g' fenced
    using that a b by (auto simp: forensic_of_completion)
  from a b c show ?thesis by blast
qed

lemma fenced_log_parsed_alike_example:
  "\<not> contains fence ''{}''
   \<and> available fencing_groq \<and> available demo_groq
   \<and> chat_create fencing_groq [] (forensic_messages ''system'' (\<lambda>m u e. e) ''evidence'' ''m1'' ''u1'') (1 / 10) 2048
        = Inr [Inr (PStr (wrap_json ''{}''))]
   \<and> chat_create demo_groq [] (forensic_messages ''system'' (\<lambda>m u e. e) ''evidence'' ''m1'' ''u1'') (1 / 10) 2048
        = Inr [Inr (PStr ''{}'')]
   \<and> fst (generate_forensic_analysis fencing_groq json_loads_fragment ''system'' (\<lambda>m u e. e) [] ''evidence'' ''m1'' ''u1'')
        = Inr (PDict [(''media_id'', PStr ''m1''), (''user_id'', PStr ''u1'')])
   \<and> fst (generate_forensic_analysis demo_groq json_loads_fragment ''system'' (\<lambda>m u e. e) [] ''evidence'' ''m1'' ''u1'')
        = Inr (PDict [(''media_id'', PStr ''m1''), (''user_id'', PStr ''u1'')])"
proof -
  have n: "\<not> contains fence ''{}''" by (simp add: fence_def starts_with_def)
  have av: "available fencing_groq" "available demo_groq"
    by (simp_all add: fencing_groq_def demo_groq_def)
  have c1: "chat_create fencing_groq [] (forensic_messages ''system'' (\<lambda>m u e. e) ''evidence'' ''m1'' ''u1'') (1 / 10) 2048
        = Inr [Inr (PStr (wrap_json ''{}''))]"
    by (simp add: fencing_groq_def demo_groq_def)
  have c2: "chat_create demo_groq [] (forensic_messages ''system'' (\<lambda>m u e. e) ''evidence'' ''m1'' ''u1'') (1 / 10) 2048
        = Inr [Inr (PStr ''{}'')]"
    by (simp add: demo_groq_def)
  have u: "fst (generate_forensic_analysis demo_groq json_loads_fragment ''system'' (\<lambda>m u e. e) [] ''evidence'' ''m1'' ''u1'')
        = Inr (PDict [(''media_id'', PStr ''m1''), (''user_id'', PStr ''u1'')])"
    unfolding forensic_of_completion [OF av(2) c2]
    by (simp add: forensic_postprocess_def forensic_try_def dict_get_def clean_markdown_def
        fence_def fence_json_def starts_with_def strip_def is_space_def json_loads_fragment_def)
  from fenced_log_parsed_alike [OF n, of json_loads_fragment "''m1''" "''u1''" "[]" "[]"
      "''system''" "\<lambda>m u e. e" "''evidence''"] av c1 c2
  have "fst (generate_forensic_analysis fencing_groq json_loads_fragment ''system'' (\<lambda>m u e. e) [] ''evidence'' ''m1'' ''u1'')
      = fst (generate_forensic_analysis demo_groq json_loads_fragment ''system'' (\<lambda>m u e. e) [] ''evidence'' ''m1'' ''u1'')"
    by blast
  with n av c1 c2 u show ?thesis by simp
qed

lemma tricky_unwrapped:
  "forensic_postprocess json_loads_fragment ''m1'' ''u1'' [(''content'', PStr tricky_log)]
     = PDict [(''media_id'', PStr ''m1''), (''user_id'', PStr ''u1'')]"
  by (simp add: forensic_postprocess_def forensic_try_def dict_get_def clean_markdown_def
        tricky_log_def fence_def fence_json_def dq_def starts_with_def list_index_def strip_def
        is_space_def json_loads_fragment_def)

lemma tricky_wrapped:
  "forensic_postprocess json_loads_fragment ''m1'' ''u1'' [(''content'', PStr (wrap_json tricky_log))]
     = PNone"
  by (simp add: forensic_postprocess_def forensic_try_def dict_get_def clean_markdown_def wrap_json_def
        tricky_log_def fence_def fence_json_def dq_def starts_with_def list_index_def strip_def
        is_space_def json_loads_fragment_def newline_def)

text \<open>
  C7 does not hold of the code. The cleaning, which its comment says removes the Markdown
  wrapping, takes any run of three backticks for a fence, also one inside a string of the
  log. For the log whose \<open>inference_notes\<close> quote a fenced block: unwrapped, the text
  between its two inner fences is taken for the log, so the function returns the empty log
  with the two identifiers and the notes are lost; between fence lines, the text up to its
  first inner fence is taken, which does not decode, so the function returns no result. The
  two differ, and neither is the log.
\<close>

theorem embedded_fence_parsed_differently:
  "json_loads_fragment tricky_log = Inr (PDict [(''inference_notes'', PStr (fence @ ''{}'' @ fence))])
   \<and> forensic_postprocess json_loads_fragment ''m1'' ''u1'' [(''content'', PStr (wrap_json tricky_log))]
       = PNone
   \<and> forensic_postprocess json_loads_fragment ''m1'' ''u1'' [(''content'', PStr tricky_log)]
       = PDict [(''media_id'', PStr ''m1''), (''user_id'', PStr ''u1'')]
   \<and> fst (generate_forensic_analysis fenced_quoting_groq json_loads_fragment ''system'' (\<lambda>m u e. e) []
            ''evidence'' ''m1'' ''u1'') = Inr PNone
   \<and> fst (generate_forensic_analysis quoting_groq json_loads_fragment ''system'' (\<lambda>m u e. e) []
            ''evidence'' ''m1'' ''u1'')
       = Inr (PDict [(''media_id'', PStr ''m1''), (''user_id'', PStr ''u1'')])
   \<and> fst (generate_forensic_analysis fenced_quoting_groq json_loads_fragment ''system'' (\<lambda>m u e. e) []
            ''evidence'' ''m1'' ''u1'')
       \<noteq> fst (generate_forensic_analysis quoting_groq json_loads_fragment ''system'' (\<lambda>m u e. e) []
            ''evidence'' ''m1'' ''u1'')"
proof -
  have a: "available fenced_quoting_groq" "available quoting_groq"
    by (simp_all add: fenced_quoting_groq_def quoting_groq_def demo_groq_def)
  have c1: "chat_create fenced_quoting_groq w ms (1 / 10) 2048 = Inr [Inr (PStr (wrap_json tricky_log))]"
    for w ms by (simp add: fenced_quoting_groq_def)
  have c2: "chat_create quoting_groq w ms (1 / 10) 2048 = Inr [Inr (PStr tricky_log)]"
    for w ms by (simp add: quoting_groq_def)
  have w: "forensic_postprocess json_loads_fragment ''m1'' ''u1''
             [(''content'', PStr (wrap_json tricky_log)), (''model'', PStr model_name)] = PNone"
    using tricky_wrapped by (simp add: forensic_postprocess_def forensic_try_def dict_get_def)
  have u: "forensic_postprocess json_loads_fragment ''m1'' ''u1''
             [(''content'', PStr tricky_log), (''model'', PStr model_name)]
           = PDict [(''media_id'', PStr ''m1''), (''user_id'', PStr ''u1'')]"
    using tricky_unwrapped by (simp add: forensic_postprocess_def forensic_try_def dict_get_def)
  have l: "json_loads_fragment tricky_log
             = Inr (PDict [(''inference_notes'', PStr (fence @ ''{}'' @ fence))])"
    by (simp add: json_loads_fragment_def tricky_log_def fence_def dq_def)
  from l tricky_wrapped tricky_unwrapped w u
    forensic_of_completion [OF a(1) c1] forensic_of_completion [OF a(2) c2]
  show ?thesis by simp
qed

section \<open>Properties of the speech server\<close>

text \<open>
  C8. When the handler of \<open>/transcribe\<close> finishes, with a body or with the 500 it raises,
  the temporary file does not exist, and no other file has changed. On the paths where the
  upload was written, in full or in part, the file was there when the \<open>try\<close> block ended.
\<close>

theorem temp_file_removed:
  "snd (transcribe_endpoint env files filename data) (''temp_'' @ filename) = None
   \<and> (\<forall>path. path \<noteq> ''temp_'' @ filename
         \<longrightarrow> snd (transcribe_endpoint env files filename data) path = files path)
   \<and> (write_upload env files (''temp_'' @ filename) data = CopyDone
         \<longrightarrow> snd (whisper_try env files (''temp_'' @ filename) data) (''temp_'' @ filename) = Some data)
   \<and> (\<forall>partial e. write_upload env files (''temp_'' @ filename) data = CopyFails partial e
         \<longrightarrow> snd (whisper_try env files (''temp_'' @ filename) data) (''temp_'' @ filename) = Some partial)"
  by (auto simp: transcribe_endpoint_def remove_if_exists_def whisper_try_def save_upload_def Let_def
           split: prod.splits sum.splits write_outcome.splits option.splits)

theorem temp_file_removed_witness:
  "write_upload crashing_whisper Map.empty ''temp_a.wav'' ''RIFF'' = CopyDone
   \<and> snd (whisper_try crashing_whisper Map.empty ''temp_a.wav'' ''RIFF'') ''temp_a.wav'' = Some ''RIFF''
   \<and> fst (transcribe_endpoint crashing_whisper Map.empty ''a.wav'' ''RIFF'') = Inl (HTTPException 500 ''error'')
   \<and> snd (transcribe_endpoint crashing_whisper Map.empty ''a.wav'' ''RIFF'') ''temp_a.wav'' = None
   \<and> fst (transcribe_endpoint working_whisper Map.empty ''a.wav'' ''RIFF'')
        = Inr [(''text'', PStr ''hello world''), (''language'', PStr ''en''), (''probability'', PFloat (9 / 10))]
   \<and> snd (transcribe_endpoint working_whisper Map.empty ''a.wav'' ''RIFF'') ''temp_a.wav'' = None"
proof -
  have w: "write_upload crashing_whisper Map.empty ''temp_a.wav'' ''RIFF'' = CopyDone"
    by (simp add: crashing_whisper_def)
  from temp_file_removed [of crashing_whisper Map.empty "''a.wav''" "''RIFF''"] w
  have a: "snd (whisper_try crashing_whisper Map.empty ''temp_a.wav'' ''RIFF'') ''temp_a.wav'' = Some ''RIFF''"
    and b: "snd (transcribe_endpoint crashing_whisper Map.empty ''a.wav'' ''RIFF'') ''temp_a.wav'' = None"
    by simp_all
  from temp_file_removed [of working_whisper Map.empty "''a.wav''" "''RIFF''"]
  have c: "snd (transcribe_endpoint working_whisper Map.empty ''a.wav'' ''RIFF'') ''temp_a.wav'' = None"
    by simp
  have d: "fst (transcribe_endpoint crashing_whisper Map.empty ''a.wav'' ''RIFF'') = Inl (HTTPException 500 ''error'')"
    by (simp add: transcribe_endpoint_def whisper_try_def save_upload_def crashing_whisper_def Let_def)
  have e: "fst (transcribe_endpoint working_whisper Map.empty ''a.wav'' ''RIFF'')
        = Inr [(''text'', PStr ''hello world''), (''language'', PStr ''en''), (''probability'', PFloat (9 / 10))]"
    by (simp add: transcribe_endpoint_def whisper_try_def save_upload_def crashing_whisper_def
          working_whisper_def strip_def is_space_def Let_def)
  from w a b c d e show ?thesis by blast
qed


section \<open>Properties of the face detection server\<close>

text \<open>
  C2 does not hold of the code: the 400 that both handlers raise for a buffer OpenCV cannot
  read is raised inside the \<open>try\<close> block whose \<open>except Exception\<close> turns every exception
  into a 500. For any OpenCV that reads no image from the buffer, both endpoints answer 500.
\<close>

theorem undecodable_image_gives_500:
  "detect_faces (cv\<lparr>imdecode := (\<lambda>buf. Inr None)\<rparr>) contents
     = Inl (HTTPException 500 (cv_exn_str cv (HTTPException 400 ''Could not decode image'')))
   \<and> http_status (detect_faces (cv\<lparr>imdecode := (\<lambda>buf. Inr None)\<rparr>) contents) = 500
   \<and> http_status (detect_faces_base64 (cv\<lparr>imdecode := (\<lambda>buf. Inr None), b64decode := (\<lambda>s. Inr s)\<rparr>)
        [(''image'', PStr ''AAAA'')]) = 500
   \<and> http_status (detect_faces blind_cv '''') = 500"
  by (simp add: detect_faces_def detect_faces_try_def detect_faces_base64_def
        detect_faces_base64_try_def http_status_def dict_get_def starts_with_def list_index_def
        blind_cv_def)

end
